theory Spec2Isabelle
  imports Main "HOL-Library.Product_Lexorder" "HOL-Library.List_Lexorder"
begin

section \<open>Python values and the runtime the renderer calls\<close>

text \<open>
  The program is \<^verbatim>\<open>agile-issue-splitter/scripts/render_issue_bundle_markdown.py\<close>.
  A Python \<^verbatim>\<open>str\<close> is a sequence of Unicode code points, so a string is a list of
  code points here (the placeholder dash U+2014 is one element, as it is one character for
  \<^verbatim>\<open>str.strip\<close> and \<^verbatim>\<open>len\<close>). The function \<open>u\<close> reads an ASCII literal.
  The order on strings is the lexicographic order on code points, which is the order of
  Python's \<^verbatim>\<open><\<close> on \<^verbatim>\<open>str\<close>.
\<close>

type_synonym ustring = "nat list"

definition u :: "string \<Rightarrow> ustring" where
  "u s = map of_char s"

text \<open>
  The value \<^verbatim>\<open>json.loads\<close> returns: \<^verbatim>\<open>None\<close>, a \<^verbatim>\<open>bool\<close>, an \<^verbatim>\<open>int\<close>, a \<^verbatim>\<open>str\<close>,
  a \<^verbatim>\<open>list\<close> or a \<^verbatim>\<open>dict\<close> with \<^verbatim>\<open>str\<close> keys, kept in insertion order. Numbers with
  a fraction or an exponent (Python floats) are not part of the model. A \<^verbatim>\<open>dict\<close> holds
  each key once; on such a list of pairs \<open>map_of\<close> is the dictionary's lookup.
\<close>

datatype json =
    JNull
  | JBool bool
  | JInt int
  | JStr ustring
  | JList "json list"
  | JDict "(ustring \<times> json) list"

type_synonym dict = "(ustring \<times> json) list"

text \<open>
  The two exceptions the renderer can end with: the \<^verbatim>\<open>ValueError\<close> that
  \<^verbatim>\<open>_require_object\<close> raises with its message (the specification's StructuralError),
  and the \<^verbatim>\<open>TypeError\<close> of a dictionary lookup with an unhashable key, whose message is
  the interpreter's.
\<close>

datatype error = ValueError ustring | TypeError

text \<open>
  Two tables of the interpreter's Unicode database are parameters of the model: the value of
  a code point as a decimal digit (what \<^verbatim>\<open>\d\<close> matches in a \<^verbatim>\<open>str\<close> pattern and what
  \<^verbatim>\<open>int\<close> reads), and whether a code point beyond ASCII is printable (what \<^verbatim>\<open>repr\<close>
  leaves unescaped). \<open>ascii_db\<close> is the database cut down to ASCII; on ASCII-only
  documents no function below looks at anything else.
\<close>

record unicode_db =
  decimal :: "nat \<Rightarrow> nat option"
  printable :: "nat \<Rightarrow> bool"

definition ascii_db :: unicode_db where
  "ascii_db = \<lparr>decimal = (\<lambda>c. if 48 \<le> c \<and> c \<le> 57 then Some (c - 48) else None),
               printable = (\<lambda>c. False)\<rparr>"

subsection \<open>Strings\<close>

text \<open>The characters \<^verbatim>\<open>str.isspace\<close> accepts: what \<^verbatim>\<open>strip\<close> and \<^verbatim>\<open>rstrip\<close> remove.\<close>

definition py_isspace :: "nat \<Rightarrow> bool" where
  "py_isspace c =
     ((9 \<le> c \<and> c \<le> 13) \<or> (28 \<le> c \<and> c \<le> 32) \<or> c = 133 \<or> c = 160 \<or> c = 5760
      \<or> (8192 \<le> c \<and> c \<le> 8202) \<or> c = 8232 \<or> c = 8233 \<or> c = 8239 \<or> c = 8287
      \<or> c = 12288)"

definition py_rstrip :: "ustring \<Rightarrow> ustring" where
  "py_rstrip s = rev (dropWhile py_isspace (rev s))"

definition py_strip :: "ustring \<Rightarrow> ustring" where
  "py_strip s = py_rstrip (dropWhile py_isspace s)"

text \<open>\<^verbatim>\<open>s.replace(old, new)\<close> for a one-character \<^verbatim>\<open>old\<close>.\<close>

definition py_replace :: "nat \<Rightarrow> ustring \<Rightarrow> ustring \<Rightarrow> ustring" where
  "py_replace old new s = concat (map (\<lambda>c. if c = old then new else [c]) s)"

text \<open>\<^verbatim>\<open>sep.join(parts)\<close>.\<close>

fun py_join :: "ustring \<Rightarrow> ustring list \<Rightarrow> ustring" where
  "py_join sep [] = []"
| "py_join sep [x] = x"
| "py_join sep (x # y # ys) = x @ sep @ py_join sep (y # ys)"

subsection \<open>\<^verbatim>\<open>str\<close> and \<^verbatim>\<open>repr\<close>\<close>

function dec_nat :: "nat \<Rightarrow> ustring" where
  "dec_nat n = (if n < 10 then [48 + n] else dec_nat (n div 10) @ [48 + n mod 10])"
  by pat_completeness auto
termination
  by (relation "measure id") auto

declare dec_nat.simps [simp del]

definition str_int :: "int \<Rightarrow> ustring" where
  "str_int i = (if i < 0 then 45 # dec_nat (nat (- i)) else dec_nat (nat i))"

definition hex_digit :: "nat \<Rightarrow> nat" where
  "hex_digit d = (if d < 10 then 48 + d else 87 + d)"

text \<open>\<open>hex w c\<close>: the code point in \<open>w\<close> lower-case hexadecimal digits.\<close>

definition hex :: "nat \<Rightarrow> nat \<Rightarrow> ustring" where
  "hex w c = map (\<lambda>i. hex_digit ((c div 16 ^ i) mod 16)) (rev [0..<w])"

text \<open>
  \<^verbatim>\<open>repr\<close> of a \<^verbatim>\<open>str\<close>: single quotes unless the string holds a single and no double
  quote; the quote and the backslash escaped, tab, newline and return by letter, the other
  control characters and the unprintable ones by code.
\<close>

definition repr_char :: "unicode_db \<Rightarrow> nat \<Rightarrow> nat \<Rightarrow> ustring" where
  "repr_char db quote c =
     (if c = quote \<or> c = 92 then [92, c]
      else if c = 9 then [92, 116]
      else if c = 10 then [92, 110]
      else if c = 13 then [92, 114]
      else if c < 32 \<or> c = 127 then [92, 120] @ hex 2 c
      else if c < 127 then [c]
      else if printable db c then [c]
      else if c \<le> 255 then [92, 120] @ hex 2 c
      else if c \<le> 65535 then [92, 117] @ hex 4 c
      else [92, 85] @ hex 8 c)"

definition repr_str :: "unicode_db \<Rightarrow> ustring \<Rightarrow> ustring" where
  "repr_str db s =
     (let quote = (if 39 \<in> set s \<and> 34 \<notin> set s then 34 else 39)
      in [quote] @ concat (map (repr_char db quote) s) @ [quote])"

fun py_repr :: "unicode_db \<Rightarrow> json \<Rightarrow> ustring" where
  "py_repr db JNull = u ''None''"
| "py_repr db (JBool b) = (if b then u ''True'' else u ''False'')"
| "py_repr db (JInt i) = str_int i"
| "py_repr db (JStr s) = repr_str db s"
| "py_repr db (JList xs) = u ''['' @ py_join (u '', '') (map (py_repr db) xs) @ u '']''"
| "py_repr db (JDict kvs) =
     u ''{'' @ py_join (u '', '') (map (\<lambda>(k, v). repr_str db k @ u '': '' @ py_repr db v) kvs)
       @ u ''}''"

text \<open>\<^verbatim>\<open>str(value)\<close>, which is also what an f-string puts for \<^verbatim>\<open>{value}\<close>.\<close>

definition py_str :: "unicode_db \<Rightarrow> json \<Rightarrow> ustring" where
  "py_str db v = (case v of JStr s \<Rightarrow> s | _ \<Rightarrow> py_repr db v)"

text \<open>Truth value of a document value: what \<^verbatim>\<open>not value\<close> negates.\<close>

definition truthy :: "json \<Rightarrow> bool" where
  "truthy v = (case v of JNull \<Rightarrow> False | JBool b \<Rightarrow> b | JInt i \<Rightarrow> i \<noteq> 0
               | JStr s \<Rightarrow> s \<noteq> [] | JList xs \<Rightarrow> xs \<noteq> [] | JDict kvs \<Rightarrow> kvs \<noteq> [])"

text \<open>\<^verbatim>\<open>d.get(key)\<close> on a dictionary: \<^verbatim>\<open>None\<close> for a missing key.\<close>

definition dict_get :: "dict \<Rightarrow> string \<Rightarrow> json" where
  "dict_get d key = (case map_of d (u key) of None \<Rightarrow> JNull | Some v \<Rightarrow> v)"

text \<open>
  \<^verbatim>\<open>x.get(key) if isinstance(x.get(key), list) else []\<close>, the way the renderer reads
  every list-valued field.
\<close>

definition list_field :: "dict \<Rightarrow> string \<Rightarrow> json list" where
  "list_field d key = (case dict_get d key of JList xs \<Rightarrow> xs | _ \<Rightarrow> [])"

section \<open>The formatting helpers\<close>

definition TYPE_DISPLAY :: "(ustring \<times> ustring) list" where
  "TYPE_DISPLAY =
     [(u ''user_story'', u ''User Story''), (u ''task'', u ''Task''), (u ''bug'', u ''Bug'')]"

definition ISSUE_PREFIX_ORDER :: "(ustring \<times> int) list" where
  "ISSUE_PREFIX_ORDER = [(u ''US'', 0), (u ''TASK'', 1), (u ''BUG'', 2)]"

text \<open>
  \<^verbatim>\<open>re.fullmatch(r"([A-Z]+)-(\d+)", value)\<close>: the two groups, when the string is a
  non-empty run of \<^verbatim>\<open>A\<close> to \<^verbatim>\<open>Z\<close>, a hyphen and a non-empty run of decimal digits. The
  first group cannot hold a hyphen, so it is the longest run of capitals at the front.
\<close>

definition is_upper :: "nat \<Rightarrow> bool" where
  "is_upper c = (65 \<le> c \<and> c \<le> 90)"

definition id_match :: "unicode_db \<Rightarrow> ustring \<Rightarrow> (ustring \<times> ustring) option" where
  "id_match db s =
     (let prefix = takeWhile is_upper s
      in case dropWhile is_upper s of
           [] \<Rightarrow> None
         | c # num_str \<Rightarrow>
             if prefix \<noteq> [] \<and> c = 45 \<and> num_str \<noteq> []
                \<and> list_all (\<lambda>d. decimal db d \<noteq> None) num_str
             then Some (prefix, num_str) else None)"

text \<open>
  \<^verbatim>\<open>int(num_str)\<close> on a string of decimal digits. A Python \<^verbatim>\<open>int\<close> is unbounded; the
  interpreter's limit on the number of digits that \<^verbatim>\<open>int\<close> converts is not modelled.
\<close>

definition py_int :: "unicode_db \<Rightarrow> ustring \<Rightarrow> int" where
  "py_int db s = foldl (\<lambda>n c. 10 * n + int (case decimal db c of Some d \<Rightarrow> d | None \<Rightarrow> 0)) 0 s"

text \<open>\<^verbatim>\<open>prefix_order.get(prefix, 99)\<close> on a dictionary from prefix to rank.\<close>

definition get_rank :: "(ustring \<times> int) list \<Rightarrow> ustring \<Rightarrow> int" where
  "get_rank prefix_order prefix = (case map_of prefix_order prefix of None \<Rightarrow> 99 | Some r \<Rightarrow> r)"

text \<open>\<^verbatim>\<open>_id_key\<close> (lines 15 to 22).\<close>

definition id_key :: "unicode_db \<Rightarrow> json \<Rightarrow> (ustring \<times> int) list \<Rightarrow> int \<times> int \<times> ustring" where
  "id_key db v prefix_order =
     (case v of
        JStr s \<Rightarrow>
          (case id_match db s of
             None \<Rightarrow> (99, 0, s)
           | Some (prefix, num_str) \<Rightarrow>
               (get_rank prefix_order prefix, py_int db num_str, s))
      | _ \<Rightarrow> (99, 0, py_str db v))"

definition dash :: ustring where
  "dash = [8212]"

text \<open>\<^verbatim>\<open>_md_cell\<close> (lines 25 to 31).\<close>

definition md_cell :: "unicode_db \<Rightarrow> json \<Rightarrow> ustring" where
  "md_cell db v =
     (if v = JNull then dash
      else
        (let v' = (case v of
                     JList items \<Rightarrow>
                       JStr (py_join (u '', '') (map (py_str db) (filter (\<lambda>i. i \<noteq> JNull) items)))
                   | _ \<Rightarrow> v);
             text = py_strip (py_replace 10 (u '' '') (py_str db v'))
         in if text \<noteq> [] then py_replace 124 [92, 124] text else dash))"

text \<open>\<^verbatim>\<open>_format_estimate\<close> (lines 34 to 45).\<close>

definition format_estimate :: "unicode_db \<Rightarrow> json \<Rightarrow> ustring" where
  "format_estimate db estimate =
     (case estimate of
        JDict d \<Rightarrow>
          (let method = dict_get d ''method''; val = dict_get d ''value''
           in if method = JNull then dash
              else if method = JStr (u ''unknown'') then u ''unknown''
              else if val = JNull then py_str db method
              else py_str db method @ u '' '' @ py_str db val)
      | _ \<Rightarrow> dash)"

text \<open>\<^verbatim>\<open>TYPE_DISPLAY.get(t, t)\<close>: the lookup hashes its key, and a list or a dictionary has no hash.\<close>

definition type_display :: "json \<Rightarrow> error + json" where
  "type_display t =
     (case t of
        JList xs \<Rightarrow> Inl TypeError
      | JDict d \<Rightarrow> Inl TypeError
      | JStr s \<Rightarrow> Inr (case map_of TYPE_DISPLAY s of None \<Rightarrow> t | Some name \<Rightarrow> JStr name)
      | _ \<Rightarrow> Inr t)"

text \<open>\<^verbatim>\<open>[x for x in xs if isinstance(x, dict)]\<close>.\<close>

fun dicts_of :: "json list \<Rightarrow> dict list" where
  "dicts_of [] = []"
| "dicts_of (JDict d # xs) = d # dicts_of xs"
| "dicts_of (_ # xs) = dicts_of xs"

text \<open>A loop whose body can raise: the first exception ends it.\<close>

fun fold_err :: "('s \<Rightarrow> 'a \<Rightarrow> error + 's) \<Rightarrow> 's \<Rightarrow> 'a list \<Rightarrow> error + 's" where
  "fold_err f s [] = Inr s"
| "fold_err f s (x # xs) = (case f s x of Inl e \<Rightarrow> Inl e | Inr s' \<Rightarrow> fold_err f s' xs)"

text \<open>
  \<^verbatim>\<open>d.setdefault(k, []).append(v)\<close> on a dictionary of lists, kept as the list of its
  items in insertion order.
\<close>

fun setdefault_append :: "('k \<times> 'v list) list \<Rightarrow> 'k \<Rightarrow> 'v \<Rightarrow> ('k \<times> 'v list) list" where
  "setdefault_append [] k v = [(k, [v])]"
| "setdefault_append ((k', vs) # rest) k v =
     (if k' = k then (k', vs @ [v]) # rest else (k', vs) # setdefault_append rest k v)"

text \<open>\<^verbatim>\<open>d.get(k, [])\<close> on such a dictionary.\<close>

definition get_list :: "('k \<times> 'v list) list \<Rightarrow> 'k \<Rightarrow> 'v list" where
  "get_list d k = (case map_of d k of None \<Rightarrow> [] | Some vs \<Rightarrow> vs)"

section \<open>The shape check\<close>

definition is_dict :: "json \<Rightarrow> bool" where
  "is_dict v = (case v of JDict d \<Rightarrow> True | _ \<Rightarrow> False)"

definition is_list :: "json \<Rightarrow> bool" where
  "is_list v = (case v of JList xs \<Rightarrow> True | _ \<Rightarrow> False)"

text \<open>\<^verbatim>\<open>_require_object\<close> (lines 48 to 60).\<close>

definition require_object :: "json \<Rightarrow> error + dict" where
  "require_object bundle =
     (case bundle of
        JDict d \<Rightarrow>
          (case find (\<lambda>key. map_of d (u key) = None) [''meta'', ''epics'', ''issues''] of
             Some key \<Rightarrow> Inl (ValueError (u ''missing required top-level key: '' @ u key))
           | None \<Rightarrow>
               if \<not> is_dict (dict_get d ''meta'')
               then Inl (ValueError ([39] @ u ''meta'' @ [39] @ u '' must be an object''))
               else if \<not> is_list (dict_get d ''epics'')
               then Inl (ValueError ([39] @ u ''epics'' @ [39] @ u '' must be an array''))
               else if \<not> is_list (dict_get d ''issues'')
               then Inl (ValueError ([39] @ u ''issues'' @ [39] @ u '' must be an array''))
               else Inr d)
      | _ \<Rightarrow> Inl (ValueError (u ''top-level JSON must be an object'')))"

section \<open>Meta, assumptions, open questions and epics\<close>

text \<open>The body of the loop over the open questions (lines 85 to 92).\<close>

definition render_question :: "unicode_db \<Rightarrow> ustring list \<Rightarrow> dict \<Rightarrow> ustring list" where
  "render_question db lines q =
     (let q_id = md_cell db (dict_get q ''id'');
          q_type = md_cell db (dict_get q ''type'');
          owner = md_cell db (dict_get q ''owner'');
          question = md_cell db (dict_get q ''question'');
          lines = lines @ [u ''- **'' @ q_id @ u ''** ('' @ q_type @ u '', owner: '' @ owner
                             @ u ''): '' @ question];
          context = dict_get q ''context''
      in case context of
           JStr s \<Rightarrow>
             if py_strip s \<noteq> [] then lines @ [u ''  - Context: '' @ md_cell db context]
             else lines
         | _ \<Rightarrow> lines)"

text \<open>A bulleted list of cells: \<^verbatim>\<open>for item in items: lines.append(f"{bullet}{_md_cell(item)}")\<close>.\<close>

definition bullets :: "unicode_db \<Rightarrow> ustring \<Rightarrow> ustring list \<Rightarrow> json list \<Rightarrow> ustring list" where
  "bullets db bullet lines items = foldl (\<lambda>ls item. ls @ [bullet @ md_cell db item]) lines items"

text \<open>\<^verbatim>\<open>_render_meta\<close> (lines 63 to 94).\<close>

definition render_meta :: "unicode_db \<Rightarrow> ustring list \<Rightarrow> dict \<Rightarrow> ustring list" where
  "render_meta db lines meta =
     (let lines = lines @ [u ''## Meta''];
          lines = lines @ [u ''- **Source:** '' @ md_cell db (dict_get meta ''source'')];
          lines = lines @ [u ''- **Generated:** '' @ md_cell db (dict_get meta ''generated_at'')];
          assumptions = list_field meta ''assumptions'';
          lines = lines @ [[]];
          lines = lines @ [u ''## Assumptions''];
          lines = (if assumptions \<noteq> [] then bullets db (u ''- '') lines assumptions
                   else lines @ [u ''- '' @ dash]);
          open_questions = list_field meta ''open_questions'';
          lines = lines @ [[]];
          lines = lines @ [u ''## Open Questions'']
      in if open_questions \<noteq> []
         then foldl (render_question db) lines
                (sort_key (\<lambda>item. id_key db (dict_get item ''id'') [(u ''Q'', 0)])
                   (dicts_of open_questions))
         else lines @ [u ''- '' @ dash])"

text \<open>The body of the loop over the sorted epics (lines 108 to 125).\<close>

definition render_epic ::
  "unicode_db \<Rightarrow> ustring list \<times> (ustring \<rightharpoonup> dict) \<Rightarrow> dict \<Rightarrow> ustring list \<times> (ustring \<rightharpoonup> dict)" where
  "render_epic db st epic =
     (let lines = fst st; epic_by_id = snd st;
          epic_id = dict_get epic ''id'';
          epic_by_id = (case epic_id of JStr s \<Rightarrow> epic_by_id(s \<mapsto> epic) | _ \<Rightarrow> epic_by_id);
          lines = lines @ [u ''### '' @ md_cell db (dict_get epic ''id'') @ u '': ''
                             @ md_cell db (dict_get epic ''title'')];
          lines = lines @ [u ''- **Objective:** '' @ md_cell db (dict_get epic ''objective'')];
          exit_criteria = list_field epic ''exit_criteria'';
          lines = lines @ [u ''- **Exit criteria:**''];
          lines = (if exit_criteria \<noteq> [] then bullets db (u ''  - '') lines exit_criteria
                   else lines @ [u ''  - '' @ dash]);
          non_goals = list_field epic ''non_goals'';
          lines = (if non_goals \<noteq> []
                   then bullets db (u ''  - '') (lines @ [u ''- **Non-goals:**'']) non_goals
                   else lines)
      in (lines @ [[]], epic_by_id))"

text \<open>\<^verbatim>\<open>_render_epics\<close> (lines 97 to 129): the lines and the dictionary it returns.\<close>

definition render_epics ::
  "unicode_db \<Rightarrow> ustring list \<Rightarrow> json list \<Rightarrow> ustring list \<times> (ustring \<rightharpoonup> dict)" where
  "render_epics db lines epics =
     (let lines = lines @ [[]];
          lines = lines @ [u ''## Epics''];
          epic_dicts = dicts_of epics
      in if epic_dicts = [] then (lines @ [u ''- '' @ dash], Map.empty)
         else
           (let st = foldl (render_epic db) (lines, Map.empty)
                       (sort_key (\<lambda>e. id_key db (dict_get e ''id'') [(u ''E'', 0)]) epic_dicts);
                lines = fst st
            in (if lines \<noteq> [] \<and> last lines = [] then butlast lines else lines, snd st)))"


section \<open>The summary table\<close>

text \<open>The row of one issue (lines 139 to 150). Its cells are computed in the order of the
  source; the second one looks the type up in \<^verbatim>\<open>TYPE_DISPLAY\<close>.\<close>

definition summary_row :: "unicode_db \<Rightarrow> dict \<Rightarrow> error + ustring" where
  "summary_row db issue =
     (let issue_id = md_cell db (dict_get issue ''id'')
      in case type_display (dict_get issue ''type'') of
           Inl e \<Rightarrow> Inl e
         | Inr t \<Rightarrow>
            (let issue_type = md_cell db t;
                 priority = md_cell db (dict_get issue ''priority'');
                 status = md_cell db (dict_get issue ''status'');
                 epic_id = md_cell db (dict_get issue ''epic_id'');
                 parent_id = md_cell db (dict_get issue ''parent_id'');
                 workstream = md_cell db (dict_get issue ''workstream'');
                 title = md_cell db (dict_get issue ''title'');
                 blocked_by = md_cell db (dict_get issue ''blocked_by'')
             in Inr (u ''| '' @ issue_id @ u '' | '' @ issue_type @ u '' | '' @ priority
                       @ u '' | '' @ status @ u '' | '' @ epic_id @ u '' | '' @ parent_id
                       @ u '' | '' @ workstream @ u '' | '' @ title @ u '' | '' @ blocked_by
                       @ u '' |'')))"

definition summary_header :: "ustring list" where
  "summary_header =
     [[], u ''## Backlog Summary'', [],
      u ''| ID | Type | P | Status | Epic | Parent | WS | Title | Blocked by |'',
      u ''|---|---|---|---|---|---|---|---|---|'']"

text \<open>\<^verbatim>\<open>_render_summary_table\<close> (lines 132 to 150).\<close>

definition render_summary_table :: "unicode_db \<Rightarrow> ustring list \<Rightarrow> dict list \<Rightarrow> error + ustring list" where
  "render_summary_table db lines issues =
     fold_err (\<lambda>ls issue. case summary_row db issue of Inl e \<Rightarrow> Inl e | Inr row \<Rightarrow> Inr (ls @ [row]))
       (lines @ summary_header) issues"

section \<open>The detail block of an issue\<close>

text \<open>\<^verbatim>\<open>_render_issue_common\<close> (lines 153 to 171).\<close>

definition render_issue_common :: "unicode_db \<Rightarrow> ustring list \<Rightarrow> dict \<Rightarrow> error + ustring list" where
  "render_issue_common db lines issue =
     (let issue_type = dict_get issue ''type'';
          lines = lines @ [u ''#### '' @ md_cell db (dict_get issue ''id'') @ u '': ''
                             @ md_cell db (dict_get issue ''title'')]
      in case type_display issue_type of
           Inl e \<Rightarrow> Inl e
         | Inr t \<Rightarrow>
            (let lines = lines @
                   [u ''- **Type:** '' @ md_cell db t @ u ''  ''
                      @ u ''**Priority:** '' @ md_cell db (dict_get issue ''priority'') @ u ''  ''
                      @ u ''**Status:** '' @ md_cell db (dict_get issue ''status'') @ u ''  ''
                      @ u ''**Estimate:** ''
                      @ md_cell db (JStr (format_estimate db (dict_get issue ''estimate'')))];
                 lines = lines @
                   [u ''- **Epic:** '' @ md_cell db (dict_get issue ''epic_id'') @ u ''  ''
                      @ u ''**Parent:** '' @ md_cell db (dict_get issue ''parent_id'') @ u ''  ''
                      @ u ''**Workstream:** '' @ md_cell db (dict_get issue ''workstream'')];
                 lines = lines @ [u ''- **Labels:** '' @ md_cell db (dict_get issue ''labels'')];
                 lines = lines @ [u ''- **Blocked by:** '' @ md_cell db (dict_get issue ''blocked_by'')];
                 lines = lines @ [[]];
                 lines = lines @ [u ''**Description**''];
                 lines = lines @ [md_cell db (dict_get issue ''description'')]
             in Inr lines))"

text \<open>A titled field: an empty line, the title, the cell.\<close>

definition field_block :: "unicode_db \<Rightarrow> ustring list \<Rightarrow> string \<Rightarrow> json \<Rightarrow> ustring list" where
  "field_block db lines title v = lines @ [[], u title, md_cell db v]"

text \<open>A titled bulleted list that shows the placeholder when it is empty.\<close>

definition list_block :: "unicode_db \<Rightarrow> ustring list \<Rightarrow> string \<Rightarrow> json list \<Rightarrow> ustring list" where
  "list_block db lines title items =
     (let lines = lines @ [[], u title]
      in if items \<noteq> [] then bullets db (u ''- '') lines items else lines @ [u ''- '' @ dash])"

text \<open>A titled bulleted list that is left out when it is empty.\<close>

definition optional_block :: "unicode_db \<Rightarrow> ustring list \<Rightarrow> string \<Rightarrow> json list \<Rightarrow> ustring list" where
  "optional_block db lines title items =
     (if items \<noteq> [] then bullets db (u ''- '') (lines @ [[], u title]) items else lines)"

text \<open>\<^verbatim>\<open>_render_user_story\<close> (lines 174 to 194).\<close>

definition render_user_story :: "unicode_db \<Rightarrow> ustring list \<Rightarrow> dict \<Rightarrow> ustring list" where
  "render_user_story db lines issue =
     (let lines = field_block db lines ''**Story**'' (dict_get issue ''story'');
          lines = field_block db lines ''**Value**'' (dict_get issue ''value'');
          ac = list_field issue ''acceptance_criteria'';
          lines = list_block db lines ''**Acceptance Criteria**'' ac;
          dod = list_field issue ''definition_of_done''
      in optional_block db lines ''**Definition of Done**'' dod)"

text \<open>\<^verbatim>\<open>_render_task\<close> (lines 197 to 218).\<close>

definition render_task :: "unicode_db \<Rightarrow> ustring list \<Rightarrow> dict \<Rightarrow> ustring list" where
  "render_task db lines issue =
     (let lines = field_block db lines ''**Task Kind**'' (dict_get issue ''task_kind'');
          lines = field_block db lines ''**Deliverable**'' (dict_get issue ''deliverable'');
          lines = field_block db lines ''**Verification**'' (dict_get issue ''verification'');
          ac = list_field issue ''acceptance_criteria'';
          lines = optional_block db lines ''**Acceptance Criteria**'' ac;
          dod = list_field issue ''definition_of_done''
      in optional_block db lines ''**Definition of Done**'' dod)"

text \<open>\<^verbatim>\<open>_render_bug\<close> (lines 221 to 255).\<close>

definition render_bug :: "unicode_db \<Rightarrow> ustring list \<Rightarrow> dict \<Rightarrow> ustring list" where
  "render_bug db lines issue =
     (let lines = field_block db lines ''**Severity**'' (dict_get issue ''severity'');
          lines = field_block db lines ''**Environment**'' (dict_get issue ''environment'');
          steps = list_field issue ''steps_to_reproduce'';
          lines = list_block db lines ''**Steps to Reproduce**'' steps;
          lines = field_block db lines ''**Expected**'' (dict_get issue ''expected'');
          lines = field_block db lines ''**Actual**'' (dict_get issue ''actual'');
          ac = list_field issue ''acceptance_criteria'';
          lines = list_block db lines ''**Acceptance Criteria**'' ac;
          dod = list_field issue ''definition_of_done''
      in optional_block db lines ''**Definition of Done**'' dod)"

text \<open>\<^verbatim>\<open>_render_issue_details\<close> (lines 258 to 267).\<close>

definition render_issue_details :: "unicode_db \<Rightarrow> ustring list \<Rightarrow> dict \<Rightarrow> error + ustring list" where
  "render_issue_details db lines issue =
     (case render_issue_common db lines issue of
        Inl e \<Rightarrow> Inl e
      | Inr lines \<Rightarrow>
         (let issue_type = dict_get issue ''type'';
              lines = (if issue_type = JStr (u ''user_story'') then render_user_story db lines issue
                       else if issue_type = JStr (u ''task'') then render_task db lines issue
                       else if issue_type = JStr (u ''bug'') then render_bug db lines issue
                       else lines)
          in Inr (lines @ [[]])))"


section \<open>The embedded document\<close>

text \<open>
  \<^verbatim>\<open>json.dumps(bundle, indent=2, ensure_ascii=False)\<close> of the standard library: a string
  in double quotes with the quote, the backslash and the control characters escaped, an
  empty container on one line, the items of any other one on lines of their own, two spaces
  deeper.
\<close>

definition json_escape_char :: "nat \<Rightarrow> ustring" where
  "json_escape_char c =
     (if c = 34 then [92, 34]
      else if c = 92 then [92, 92]
      else if c = 10 then [92, 110]
      else if c = 13 then [92, 114]
      else if c = 9 then [92, 116]
      else if c = 8 then [92, 98]
      else if c = 12 then [92, 102]
      else if c < 32 then [92, 117] @ hex 4 c
      else [c])"

definition json_string :: "ustring \<Rightarrow> ustring" where
  "json_string s = [34] @ concat (map json_escape_char s) @ [34]"

definition newline_indent :: "nat \<Rightarrow> ustring" where
  "newline_indent level = 10 # replicate (2 * level) 32"

fun json_dumps :: "nat \<Rightarrow> json \<Rightarrow> ustring" where
  "json_dumps level JNull = u ''null''"
| "json_dumps level (JBool b) = (if b then u ''true'' else u ''false'')"
| "json_dumps level (JInt i) = str_int i"
| "json_dumps level (JStr s) = json_string s"
| "json_dumps level (JList xs) =
     (if xs = [] then u ''[]''
      else u ''['' @ newline_indent (level + 1)
             @ py_join (u '','' @ newline_indent (level + 1)) (map (json_dumps (level + 1)) xs)
             @ newline_indent level @ u '']'')"
| "json_dumps level (JDict kvs) =
     (if kvs = [] then u ''{}''
      else u ''{'' @ newline_indent (level + 1)
             @ py_join (u '','' @ newline_indent (level + 1))
                 (map (\<lambda>(k, v). json_string k @ u '': '' @ json_dumps (level + 1) v) kvs)
             @ newline_indent level @ u ''}'')"

section \<open>The document\<close>

text \<open>The dictionary \<^verbatim>\<open>children_by_parent_id\<close> (lines 290 to 294).\<close>

definition children_index :: "dict list \<Rightarrow> (ustring \<times> dict list) list" where
  "children_index issues =
     foldl (\<lambda>idx issue.
              case dict_get issue ''parent_id'' of
                JStr parent_id \<Rightarrow>
                  if parent_id \<noteq> [] then setdefault_append idx parent_id issue else idx
              | _ \<Rightarrow> idx)
       [] issues"

text \<open>The dictionary \<^verbatim>\<open>epic_groups\<close> (lines 299 to 303); the key \<open>None\<close> is the group of
  the issues with no epic.\<close>

definition epic_key :: "dict \<Rightarrow> ustring option" where
  "epic_key issue = (case dict_get issue ''epic_id'' of JStr e \<Rightarrow> Some e | _ \<Rightarrow> None)"

definition group_index :: "dict list \<Rightarrow> (ustring option \<times> dict list) list" where
  "group_index issues = foldl (\<lambda>groups issue. setdefault_append groups (epic_key issue) issue) [] issues"

text \<open>\<^verbatim>\<open>epic_ids_sorted\<close> (lines 305 to 307).\<close>

definition epic_ids_sorted :: "unicode_db \<Rightarrow> (ustring option \<times> dict list) list \<Rightarrow> ustring option list" where
  "epic_ids_sorted db epic_groups =
     map Some (sort_key (\<lambda>eid. id_key db (JStr eid) [(u ''E'', 0)])
                 (concat (map (\<lambda>k. case k of Some eid \<Rightarrow> [eid] | None \<Rightarrow> []) (map fst epic_groups))))
       @ (if None \<in> set (map fst epic_groups) then [None] else [])"

text \<open>The key the children of a story are sorted by (lines 331 to 334).\<close>

definition child_key :: "unicode_db \<Rightarrow> dict \<Rightarrow> int \<times> int \<times> int \<times> ustring" where
  "child_key db i =
     (get_rank ISSUE_PREFIX_ORDER (takeWhile (\<lambda>c. c \<noteq> 45) (py_str db (dict_get i ''id''))),
      id_key db (dict_get i ''id'') ISSUE_PREFIX_ORDER)"

text \<open>The body of the loop over the user stories of a group (lines 324 to 336).\<close>

definition render_story ::
  "unicode_db \<Rightarrow> (ustring \<times> dict list) list \<Rightarrow> ustring list \<Rightarrow> dict \<Rightarrow> error + ustring list" where
  "render_story db children_by_parent_id lines story =
     (case render_issue_details db lines story of
        Inl e \<Rightarrow> Inl e
      | Inr lines \<Rightarrow>
         (case dict_get story ''id'' of
            JStr story_id \<Rightarrow>
              fold_err (render_issue_details db) lines
                (sort_key (child_key db) (get_list children_by_parent_id story_id))
          | _ \<Rightarrow> Inr lines))"

text \<open>The body of the loop over the epic ids (lines 310 to 339).\<close>

definition render_group ::
  "unicode_db \<Rightarrow> (ustring \<rightharpoonup> dict) \<Rightarrow> (ustring \<times> dict list) list
     \<Rightarrow> (ustring option \<times> dict list) list \<Rightarrow> ustring list \<Rightarrow> ustring option
     \<Rightarrow> error + ustring list" where
  "render_group db epic_by_id children_by_parent_id epic_groups lines epic_id =
     (let lines =
            (case epic_id of
               None \<Rightarrow> lines @ [[], u ''### No Epic'']
             | Some eid \<Rightarrow>
                 (let epic = (case epic_by_id eid of None \<Rightarrow> [] | Some e \<Rightarrow> e);
                      epic_title = dict_get epic ''title''
                  in lines @ [[], u ''### '' @ eid @ u '': '' @ md_cell db epic_title]));
          group = get_list epic_groups epic_id;
          user_stories = filter (\<lambda>i. dict_get i ''type'' = JStr (u ''user_story'')) group;
          others_top_level =
            filter (\<lambda>i. dict_get i ''type'' \<noteq> JStr (u ''user_story'')
                         \<and> \<not> truthy (dict_get i ''parent_id'')) group
      in case fold_err (render_story db children_by_parent_id) lines
                (sort_key (\<lambda>i. id_key db (dict_get i ''id'') [(u ''US'', 0)]) user_stories) of
           Inl e \<Rightarrow> Inl e
         | Inr lines \<Rightarrow> fold_err (render_issue_details db) lines others_top_level)"

definition fence :: ustring where
  "fence = [96, 96, 96]"

text \<open>The Issue Details section (lines 290 to 339).\<close>

definition render_details ::
  "unicode_db \<Rightarrow> (ustring \<rightharpoonup> dict) \<Rightarrow> ustring list \<Rightarrow> dict list \<Rightarrow> error + ustring list" where
  "render_details db epic_by_id lines issue_dicts_sorted =
     (let children_by_parent_id = children_index issue_dicts_sorted;
          lines = lines @ [[]];
          lines = lines @ [u ''## Issue Details''];
          epic_groups = group_index issue_dicts_sorted
      in fold_err (render_group db epic_by_id children_by_parent_id epic_groups)
           lines (epic_ids_sorted db epic_groups))"

text \<open>
  \<^verbatim>\<open>render_issue_bundle_markdown\<close> (lines 270 to 349) in two steps: \<open>document_lines\<close> is
  the list \<^verbatim>\<open>lines\<close> when line 349 is reached, and the function itself joins it.
\<close>

definition document_lines :: "unicode_db \<Rightarrow> json \<Rightarrow> bool \<Rightarrow> error + ustring list" where
  "document_lines db bundle include_json =
     (case require_object bundle of
        Inl e \<Rightarrow> Inl e
      | Inr b \<Rightarrow>
         (let meta = (case dict_get b ''meta'' of JDict m \<Rightarrow> m | _ \<Rightarrow> []);
              epics = list_field b ''epics'';
              issues = list_field b ''issues'';
              project = (case dict_get meta ''project'' of JStr p \<Rightarrow> p | _ \<Rightarrow> u ''TBD'');
              lines = [];
              lines = lines @ [u ''# Issue Bundle '' @ dash @ u '' '' @ project];
              lines = lines @ [[]];
              lines = render_meta db lines meta;
              st = render_epics db lines epics;
              lines = fst st;
              epic_by_id = snd st;
              issue_dicts = dicts_of issues;
              issue_dicts_sorted =
                sort_key (\<lambda>i. id_key db (dict_get i ''id'') ISSUE_PREFIX_ORDER) issue_dicts
          in case render_summary_table db lines issue_dicts_sorted of
               Inl e \<Rightarrow> Inl e
             | Inr lines \<Rightarrow>
                (case render_details db epic_by_id lines issue_dicts_sorted of
                   Inl e \<Rightarrow> Inl e
                 | Inr lines \<Rightarrow>
                     Inr (if include_json
                          then lines @ [[], u ''## Issue Bundle (JSON)'', [],
                                        fence @ u ''json'', json_dumps 0 bundle, fence]
                          else lines))))"

definition render_issue_bundle_markdown :: "unicode_db \<Rightarrow> json \<Rightarrow> bool \<Rightarrow> error + ustring" where
  "render_issue_bundle_markdown db bundle include_json =
     (case document_lines db bundle include_json of
        Inl e \<Rightarrow> Inl e
      | Inr lines \<Rightarrow> Inr (py_rstrip (py_join [10] lines) @ [10]))"

section \<open>Notions the properties are stated with\<close>

text \<open>
  A valid bundle: a mapping that has the keys \<^verbatim>\<open>meta\<close>, \<^verbatim>\<open>epics\<close> and \<^verbatim>\<open>issues\<close>,
  the first a mapping and the other two sequences.
\<close>

definition valid_bundle :: "json \<Rightarrow> bool" where
  "valid_bundle bundle =
     (case bundle of
        JDict d \<Rightarrow>
          list_all (\<lambda>key. map_of d (u key) \<noteq> None) [''meta'', ''epics'', ''issues'']
          \<and> is_dict (dict_get d ''meta'') \<and> is_list (dict_get d ''epics'')
          \<and> is_list (dict_get d ''issues'')
      | _ \<Rightarrow> False)"



text \<open>A key of a mapping that is missing or holds \<^verbatim>\<open>None\<close>.\<close>

definition absent_or_null :: "dict \<Rightarrow> string \<Rightarrow> bool" where
  "absent_or_null d key = (map_of d (u key) = None \<or> map_of d (u key) = Some JNull)"

text \<open>
  The estimate formatter as the specification words it: the placeholder when the estimate is
  no mapping or has no key \<^verbatim>\<open>method\<close>, \<^verbatim>\<open>unknown\<close> for that method, the method and the
  value when the key \<^verbatim>\<open>value\<close> is present, the method alone when it is absent.
\<close>

definition claimed_format_estimate :: "unicode_db \<Rightarrow> json \<Rightarrow> ustring" where
  "claimed_format_estimate db estimate =
     (case estimate of
        JDict d \<Rightarrow>
          (case map_of d (u ''method'') of
             None \<Rightarrow> dash
           | Some method \<Rightarrow>
               if method = JStr (u ''unknown'') then u ''unknown''
               else (case map_of d (u ''value'') of
                       Some val \<Rightarrow> py_str db method @ u '' '' @ py_str db val
                     | None \<Rightarrow> py_str db method))
      | _ \<Rightarrow> dash)"

text \<open>
  The cell formatter as the specification words it: a sequence renders as the comma-joined
  string forms of its non-null elements, any other value as its string form with newlines
  replaced and the ends trimmed; an empty text gives the placeholder, a pipe is escaped.
\<close>

definition claimed_md_cell :: "unicode_db \<Rightarrow> json \<Rightarrow> ustring" where
  "claimed_md_cell db v =
     (if v = JNull then dash
      else
        (let text = (case v of
                       JList items \<Rightarrow>
                         py_join (u '', '') (map (py_str db) (filter (\<lambda>i. i \<noteq> JNull) items))
                     | _ \<Rightarrow> py_strip (py_replace 10 (u '' '') (py_str db v)))
         in if text = [] then dash else py_replace 124 [92, 124] text))"

text \<open>
  The pipe characters of a text that no backslash stands directly in front of: the marks a
  table row is cut into columns at. \<open>esc\<close> says whether a backslash stands in front of the
  text.
\<close>

fun pipes_after :: "bool \<Rightarrow> ustring \<Rightarrow> nat" where
  "pipes_after esc [] = 0"
| "pipes_after esc (c # cs) = (if c = 124 \<and> \<not> esc then 1 else 0) + pipes_after (c = 92) cs"

text \<open>
  The lines \<^verbatim>\<open>_render_issue_details\<close> appends for an issue: its detail block. The block of
  an issue is the same wherever it is emitted.
\<close>

definition detail_block :: "unicode_db \<Rightarrow> dict \<Rightarrow> ustring list" where
  "detail_block db issue = (case render_issue_details db [] issue of Inr ls \<Rightarrow> ls | Inl e \<Rightarrow> [])"

text \<open>
  The order of the detail blocks within the group of an epic (\<open>None\<close>: the issues with no
  epic), as \<open>details_order\<close> below. The user stories of the group come first, sorted, each
  directly followed by its children: the issues of the whole bundle, of any type and any
  epic, whose \<^verbatim>\<open>parent_id\<close> is the story's non-empty \<^verbatim>\<open>id\<close>. Then come the issues of the
  group that are no user stories and have no (truthy) \<^verbatim>\<open>parent_id\<close>. \<open>group_heading\<close> is
  the heading the group gets.
\<close>

definition is_story :: "dict \<Rightarrow> bool" where
  "is_story i = (dict_get i ''type'' = JStr (u ''user_story''))"

definition children_of :: "unicode_db \<Rightarrow> dict list \<Rightarrow> dict \<Rightarrow> dict list" where
  "children_of db issues story =
     (case dict_get story ''id'' of
        JStr story_id \<Rightarrow>
          if story_id = [] then []
          else sort_key (child_key db) (filter (\<lambda>i. dict_get i ''parent_id'' = JStr story_id) issues)
      | _ \<Rightarrow> [])"

definition group_of :: "dict list \<Rightarrow> ustring option \<Rightarrow> dict list" where
  "group_of issues epic_id = filter (\<lambda>i. epic_key i = epic_id) issues"

definition stories_of :: "unicode_db \<Rightarrow> dict list \<Rightarrow> ustring option \<Rightarrow> dict list" where
  "stories_of db issues epic_id =
     sort_key (\<lambda>i. id_key db (dict_get i ''id'') [(u ''US'', 0)]) (filter is_story (group_of issues epic_id))"

definition top_level_others :: "dict list \<Rightarrow> ustring option \<Rightarrow> dict list" where
  "top_level_others issues epic_id =
     filter (\<lambda>i. \<not> is_story i \<and> \<not> truthy (dict_get i ''parent_id'')) (group_of issues epic_id)"

definition details_order :: "unicode_db \<Rightarrow> dict list \<Rightarrow> ustring option \<Rightarrow> dict list" where
  "details_order db issues epic_id =
     concat (map (\<lambda>story. story # children_of db issues story) (stories_of db issues epic_id))
       @ top_level_others issues epic_id"

definition group_heading :: "unicode_db \<Rightarrow> (ustring \<rightharpoonup> dict) \<Rightarrow> ustring option \<Rightarrow> ustring list" where
  "group_heading db epic_by_id epic_id =
     (case epic_id of
        None \<Rightarrow> [[], u ''### No Epic'']
      | Some eid \<Rightarrow>
          [[], u ''### '' @ eid @ u '': ''
                 @ md_cell db (dict_get (case epic_by_id eid of None \<Rightarrow> [] | Some e \<Rightarrow> e) ''title'')])"

text \<open>
  The issues the renderer works with: the mapping-shaped elements of \<^verbatim>\<open>issues\<close>, sorted by
  the identity key (\<^verbatim>\<open>issue_dicts_sorted\<close>, lines 284 to 287).
\<close>

definition sorted_issues :: "unicode_db \<Rightarrow> json \<Rightarrow> dict list" where
  "sorted_issues db bundle =
     (case bundle of
        JDict d \<Rightarrow>
          sort_key (\<lambda>i. id_key db (dict_get i ''id'') ISSUE_PREFIX_ORDER)
            (dicts_of (list_field d ''issues''))
      | _ \<Rightarrow> [])"

text \<open>
  The Issue Details section: its heading, then for each epic id in the order of
  \<^verbatim>\<open>epic_ids_sorted\<close> the heading of the group and the detail blocks of the group, in the
  order given above.
\<close>

definition details_section :: "unicode_db \<Rightarrow> (ustring \<rightharpoonup> dict) \<Rightarrow> dict list \<Rightarrow> ustring list" where
  "details_section db epic_by_id issues =
     [[], u ''## Issue Details'']
       @ concat (map (\<lambda>epic_id. group_heading db epic_by_id epic_id
                        @ concat (map (detail_block db) (details_order db issues epic_id)))
                   (epic_ids_sorted db (group_index issues)))"

text \<open>The section that embeds the input document (lines 342 to 347).\<close>

definition embedded_section :: "json \<Rightarrow> ustring list" where
  "embedded_section bundle =
     [[], u ''## Issue Bundle (JSON)'', [], fence @ u ''json'', json_dumps 0 bundle, fence]"

text \<open>
  Documents the properties are evaluated on: one epic \<^verbatim>\<open>E-1\<close>, the user story
  \<^verbatim>\<open>US-1\<close>, a task whose parent is that story, a task whose parent \<^verbatim>\<open>US-9\<close> does not
  exist, and a user story whose parent is \<^verbatim>\<open>US-1\<close>. \<open>front_lines\<close> is what the renderer
  emits for them before the summary table.
\<close>

definition epic1 :: dict where
  "epic1 = [(u ''id'', JStr (u ''E-1'')), (u ''title'', JStr (u ''Checkout''))]"

definition us1 :: dict where
  "us1 = [(u ''id'', JStr (u ''US-1'')), (u ''type'', JStr (u ''user_story'')),
          (u ''epic_id'', JStr (u ''E-1'')), (u ''parent_id'', JNull),
          (u ''title'', JStr (u ''Pay''))]"

definition task1 :: dict where
  "task1 = [(u ''id'', JStr (u ''TASK-1'')), (u ''type'', JStr (u ''task'')),
            (u ''epic_id'', JStr (u ''E-1'')), (u ''parent_id'', JStr (u ''US-1'')),
            (u ''title'', JStr (u ''Add form''))]"

definition task9 :: dict where
  "task9 = [(u ''id'', JStr (u ''TASK-1'')), (u ''type'', JStr (u ''task'')),
            (u ''epic_id'', JStr (u ''E-1'')), (u ''parent_id'', JStr (u ''US-9'')),
            (u ''title'', JStr (u ''Add form''))]"

definition us2 :: dict where
  "us2 = [(u ''id'', JStr (u ''US-2'')), (u ''type'', JStr (u ''user_story'')),
          (u ''epic_id'', JStr (u ''E-1'')), (u ''parent_id'', JStr (u ''US-1'')),
          (u ''title'', JStr (u ''Pay by card''))]"

definition bundle_of :: "dict list \<Rightarrow> json" where
  "bundle_of issues =
     JDict [(u ''meta'', JDict []), (u ''epics'', JList [JDict epic1]),
            (u ''issues'', JList (map JDict issues))]"

definition front_lines :: "ustring list" where
  "front_lines =
     [u ''# Issue Bundle '' @ dash @ u '' TBD'', [],
      u ''## Meta'', u ''- **Source:** '' @ dash, u ''- **Generated:** '' @ dash, [],
      u ''## Assumptions'', u ''- '' @ dash, [],
      u ''## Open Questions'', u ''- '' @ dash, [],
      u ''## Epics'', u ''### E-1: Checkout'', u ''- **Objective:** '' @ dash,
      u ''- **Exit criteria:**'', u ''  - '' @ dash]"

text \<open>A value Python can hash, as far as documents go: neither a list nor a dictionary.\<close>

definition hashable :: "json \<Rightarrow> bool" where
  "hashable v = (\<not> is_list v \<and> \<not> is_dict v)"

text \<open>The definitions a concrete document is evaluated with.\<close>

lemmas eval_defs =
  u_def ascii_db_def py_isspace_def py_rstrip_def py_strip_def py_replace_def dec_nat.simps
  str_int_def hex_digit_def hex_def repr_char_def repr_str_def py_str_def truthy_def
  dict_get_def list_field_def TYPE_DISPLAY_def ISSUE_PREFIX_ORDER_def is_upper_def id_match_def
  py_int_def get_rank_def id_key_def dash_def md_cell_def format_estimate_def type_display_def get_list_def
  is_dict_def is_list_def require_object_def render_question_def bullets_def render_meta_def
  render_epic_def render_epics_def summary_row_def summary_header_def render_summary_table_def
  render_issue_common_def field_block_def list_block_def optional_block_def
  render_user_story_def render_task_def render_bug_def render_issue_details_def
  json_escape_char_def json_string_def newline_indent_def children_index_def epic_key_def
  group_index_def epic_ids_sorted_def child_key_def render_story_def render_group_def
  fence_def render_details_def document_lines_def render_issue_bundle_markdown_def Let_def

section \<open>Properties of the shape check\<close>

lemma require_object_valid: "valid_bundle bundle \<longleftrightarrow> (\<exists>d. require_object bundle = Inr d)"
  by (auto simp: valid_bundle_def require_object_def split: json.splits option.splits)

lemma require_object_Inr: "require_object bundle = Inr d \<Longrightarrow> bundle = JDict d"
  by (auto simp: require_object_def split: json.splits option.splits if_splits)

lemma render_require_error:
  "require_object bundle = Inl e \<Longrightarrow> render_issue_bundle_markdown db bundle include_json = Inl e"
  by (simp add: render_issue_bundle_markdown_def document_lines_def)

lemma require_object_error:
  assumes "\<not> valid_bundle bundle"
  shows "(\<not> is_dict bundle \<and> require_object bundle = Inl (ValueError (u ''top-level JSON must be an object'')))
       \<or> (\<exists>d key. bundle = JDict d \<and> key \<in> set [''meta'', ''epics'', ''issues'']
             \<and> map_of d (u key) = None
             \<and> require_object bundle = Inl (ValueError (u ''missing required top-level key: '' @ u key)))
       \<or> (\<exists>d. bundle = JDict d \<and> \<not> is_dict (dict_get d ''meta'')
             \<and> require_object bundle = Inl (ValueError ([39] @ u ''meta'' @ [39] @ u '' must be an object'')))
       \<or> (\<exists>d. bundle = JDict d \<and> \<not> is_list (dict_get d ''epics'')
             \<and> require_object bundle = Inl (ValueError ([39] @ u ''epics'' @ [39] @ u '' must be an array'')))
       \<or> (\<exists>d. bundle = JDict d \<and> \<not> is_list (dict_get d ''issues'')
             \<and> require_object bundle = Inl (ValueError ([39] @ u ''issues'' @ [39] @ u '' must be an array'')))"
proof (cases "bundle")
  case (JDict d)
  show ?thesis
  proof (cases "find (\<lambda>key. map_of d (u key) = None) [''meta'', ''epics'', ''issues'']")
    case None
    with JDict assms show ?thesis
      by (auto simp: valid_bundle_def require_object_def split: if_splits)
  next
    case (Some key)
    then have "key \<in> set [''meta'', ''epics'', ''issues''] \<and> map_of d (u key) = None"
      by (auto split: if_splits)
    moreover have "require_object bundle
                     = Inl (ValueError (u ''missing required top-level key: '' @ u key))"
      using JDict Some by (simp add: require_object_def)
    ultimately show ?thesis
      using JDict by blast
  qed
qed (simp_all add: require_object_def is_dict_def)

text \<open>
  C1. An input that is not a valid bundle (not a mapping, or one of \<^verbatim>\<open>meta\<close>, \<^verbatim>\<open>epics\<close>,
  \<^verbatim>\<open>issues\<close> missing, or \<^verbatim>\<open>meta\<close> not a mapping, or \<^verbatim>\<open>epics\<close> or \<^verbatim>\<open>issues\<close> not a
  sequence) makes \<^verbatim>\<open>render_issue_bundle_markdown\<close> end with the \<^verbatim>\<open>ValueError\<close> of the
  shape check, for either value of the embedding flag. The message is the one for a document
  that is no mapping, or names a key that is really missing, or names a key whose value
  really has the wrong kind. The result is the error alone: no text is returned.
\<close>

theorem structural_error:
  assumes "\<not> valid_bundle bundle"
  shows "(\<not> is_dict bundle
            \<and> render_issue_bundle_markdown db bundle include_json
                = Inl (ValueError (u ''top-level JSON must be an object'')))
       \<or> (\<exists>d key. bundle = JDict d \<and> key \<in> set [''meta'', ''epics'', ''issues'']
             \<and> map_of d (u key) = None
             \<and> render_issue_bundle_markdown db bundle include_json
                 = Inl (ValueError (u ''missing required top-level key: '' @ u key)))
       \<or> (\<exists>d. bundle = JDict d \<and> \<not> is_dict (dict_get d ''meta'')
             \<and> render_issue_bundle_markdown db bundle include_json
                 = Inl (ValueError ([39] @ u ''meta'' @ [39] @ u '' must be an object'')))
       \<or> (\<exists>d. bundle = JDict d \<and> \<not> is_list (dict_get d ''epics'')
             \<and> render_issue_bundle_markdown db bundle include_json
                 = Inl (ValueError ([39] @ u ''epics'' @ [39] @ u '' must be an array'')))
       \<or> (\<exists>d. bundle = JDict d \<and> \<not> is_list (dict_get d ''issues'')
             \<and> render_issue_bundle_markdown db bundle include_json
                 = Inl (ValueError ([39] @ u ''issues'' @ [39] @ u '' must be an array'')))"
proof -
  from assms obtain e where e: "require_object bundle = Inl e"
    by (cases "require_object bundle") (auto simp: require_object_valid)
  have iff: "\<And>x. (require_object bundle = Inl x)
                 = (render_issue_bundle_markdown db bundle include_json = Inl x)"
    using e render_require_error [OF e, of db include_json] by auto
  show ?thesis
    using require_object_error [OF assms] unfolding iff .
qed

theorem structural_error_witness:
  "\<not> valid_bundle (JDict [(u ''meta'', JDict []), (u ''issues'', JList [])])
   \<and> render_issue_bundle_markdown ascii_db (JDict [(u ''meta'', JDict []), (u ''issues'', JList [])]) True
       = Inl (ValueError (u ''missing required top-level key: epics''))"
proof -
  have h: "\<not> valid_bundle (JDict [(u ''meta'', JDict []), (u ''issues'', JList [])])"
    by (simp add: valid_bundle_def u_def)
  show ?thesis
    using h structural_error [OF h, of ascii_db True]
    by (simp add: eval_defs split del: if_split)
qed

section \<open>Properties of the identity sort key\<close>






section \<open>Properties of the estimate formatter\<close>

lemma dict_get_cases:
  "dict_get d key = JNull \<longleftrightarrow> absent_or_null d key"
  "map_of d (u key) = Some v \<Longrightarrow> dict_get d key = v"
  by (auto simp: dict_get_def absent_or_null_def split: option.splits)

text \<open>
  C6, as amended. The estimate formatter returns the placeholder when the estimate is no
  mapping or its \<^verbatim>\<open>method\<close> is absent or null, \<^verbatim>\<open>unknown\<close> when the method is that
  string, the string forms of the method and of the value with one space between them when
  the \<^verbatim>\<open>value\<close> is present and not null, and the string form of the method alone when the
  value is absent or null. The three scenarios of the specification hold.
\<close>

theorem format_estimate_amended:
  "(\<not> is_dict e \<longrightarrow> format_estimate db e = dash)
   \<and> (absent_or_null d ''method'' \<longrightarrow> format_estimate db (JDict d) = dash)
   \<and> (map_of d (u ''method'') = Some (JStr (u ''unknown''))
        \<longrightarrow> format_estimate db (JDict d) = u ''unknown'')
   \<and> (map_of d (u ''method'') = Some m \<and> m \<noteq> JNull \<and> m \<noteq> JStr (u ''unknown'')
        \<and> map_of d (u ''value'') = Some v \<and> v \<noteq> JNull
        \<longrightarrow> format_estimate db (JDict d) = py_str db m @ u '' '' @ py_str db v)
   \<and> (map_of d (u ''method'') = Some m \<and> m \<noteq> JNull \<and> m \<noteq> JStr (u ''unknown'')
        \<and> absent_or_null d ''value''
        \<longrightarrow> format_estimate db (JDict d) = py_str db m)
   \<and> format_estimate db (JDict [(u ''method'', JStr (u ''unknown''))]) = u ''unknown''
   \<and> format_estimate db (JDict [(u ''method'', JStr (u ''points'')), (u ''value'', JInt 5)])
       = u ''points 5''
   \<and> format_estimate db (JDict []) = dash"
proof -
  have a: "\<not> is_dict e \<longrightarrow> format_estimate db e = dash"
    by (simp add: format_estimate_def is_dict_def split: json.splits)
  have b: "absent_or_null d ''method'' \<longrightarrow> format_estimate db (JDict d) = dash"
    by (simp add: format_estimate_def dict_get_cases(1))
  have c: "map_of d (u ''method'') = Some (JStr (u ''unknown''))
        \<longrightarrow> format_estimate db (JDict d) = u ''unknown''"
    by (simp add: format_estimate_def dict_get_cases(2) u_def)
  have d: "map_of d (u ''method'') = Some m \<and> m \<noteq> JNull \<and> m \<noteq> JStr (u ''unknown'')
        \<and> map_of d (u ''value'') = Some v \<and> v \<noteq> JNull
        \<longrightarrow> format_estimate db (JDict d) = py_str db m @ u '' '' @ py_str db v"
    by (simp add: format_estimate_def dict_get_cases(2))
  have e: "map_of d (u ''method'') = Some m \<and> m \<noteq> JNull \<and> m \<noteq> JStr (u ''unknown'')
        \<and> absent_or_null d ''value''
        \<longrightarrow> format_estimate db (JDict d) = py_str db m"
    using dict_get_cases(1) [of d "''value''"]
    by (simp add: format_estimate_def dict_get_cases(2))
  have f: "format_estimate db (JDict [(u ''method'', JStr (u ''unknown''))]) = u ''unknown''"
    by (simp add: format_estimate_def dict_get_def u_def)
  have g: "format_estimate db (JDict [(u ''method'', JStr (u ''points'')), (u ''value'', JInt 5)])
       = u ''points 5''"
    by (simp add: format_estimate_def dict_get_def py_str_def str_int_def dec_nat.simps u_def)
  have h: "format_estimate db (JDict []) = dash"
    by (simp add: format_estimate_def dict_get_def)
  from a b c d e f g h show ?thesis by blast
qed

theorem format_estimate_amended_witness:
  "absent_or_null [(u ''method'', JStr (u ''points'')), (u ''value'', JNull)] ''value''
   \<and> format_estimate ascii_db (JDict [(u ''method'', JStr (u ''points'')), (u ''value'', JNull)])
       = u ''points''
   \<and> absent_or_null [(u ''method'', JNull)] ''method''
   \<and> format_estimate ascii_db (JDict [(u ''method'', JNull)]) = dash"
proof -
  have h1: "absent_or_null [(u ''method'', JStr (u ''points'')), (u ''value'', JNull)] ''value''"
    by (simp add: absent_or_null_def u_def)
  have h2: "absent_or_null [(u ''method'', JNull)] ''method''"
    by (simp add: absent_or_null_def u_def)
  show ?thesis
    using h1 h2
      format_estimate_amended [of "JNull" ascii_db
         "[(u ''method'', JStr (u ''points'')), (u ''value'', JNull)]" "JStr (u ''points'')" "JNull"]
      format_estimate_amended [of "JNull" ascii_db "[(u ''method'', JNull)]" "JNull" "JNull"]
    by (simp add: eval_defs)
qed

text \<open>
  The claim as stated fails on a key that is present and null: with \<^verbatim>\<open>value\<close> null the
  code returns the method alone, and with \<^verbatim>\<open>method\<close> null it returns the placeholder.
\<close>

theorem format_estimate_counterexample:
  "format_estimate ascii_db (JDict [(u ''method'', JStr (u ''points'')), (u ''value'', JNull)])
     = u ''points''
   \<and> claimed_format_estimate ascii_db (JDict [(u ''method'', JStr (u ''points'')), (u ''value'', JNull)])
     = u ''points None''
   \<and> format_estimate ascii_db (JDict [(u ''method'', JNull)]) = dash
   \<and> claimed_format_estimate ascii_db (JDict [(u ''method'', JNull)]) = u ''None''"
  by (simp add: claimed_format_estimate_def eval_defs)

section \<open>Properties of the cell formatter\<close>

lemma pipes_after_append:
  "pipes_after esc (xs @ ys)
     = pipes_after esc xs + pipes_after (if xs = [] then esc else last xs = 92) ys"
  by (induction xs arbitrary: esc) auto

lemma pipes_after_escaped: "pipes_after esc (py_replace 124 [92, 124] t) = 0"
  by (induction t arbitrary: esc) (auto simp: py_replace_def)

lemma pipes_after_md_cell: "pipes_after esc (md_cell db v) = 0"
  by (simp add: md_cell_def Let_def pipes_after_escaped dash_def)

lemma pipes_after_cell_sep:
  "pipes_after esc (md_cell db v @ 32 # 124 # rest) = Suc (pipes_after False rest)"
  by (simp add: pipes_after_append pipes_after_md_cell)

lemma pipes_after_summary_row:
  assumes "summary_row db issue = Inr row"
  shows "pipes_after False row = 10"
proof -
  obtain t where "type_display (dict_get issue ''type'') = Inr t"
    using assms by (auto simp: summary_row_def Let_def split: sum.splits)
  then show ?thesis
    using assms by (auto simp: summary_row_def Let_def u_def pipes_after_cell_sep)
qed

lemma strip_empty: "list_all py_isspace s \<Longrightarrow> py_strip s = []"
  by (auto simp: py_strip_def py_rstrip_def list_all_iff dest: set_dropWhileD)

text \<open>
  C4, as amended. \<^verbatim>\<open>None\<close> renders as the placeholder. A sequence renders as the string
  that joins the string forms of its non-null elements with commas would render: the joined
  text has its newlines replaced by spaces and its ends trimmed like any other value. Any
  other value renders as its string form with newlines replaced by spaces and the ends
  trimmed; an empty result, as for an empty list or a string of white space, gives the
  placeholder. In the result no pipe is left without a backslash directly in front of it, so
  a row of the summary table has ten column marks whatever its cells hold.
\<close>

theorem md_cell_amended:
  "md_cell db JNull = dash
   \<and> md_cell db (JList items)
       = md_cell db (JStr (py_join (u '', '') (map (py_str db) (filter (\<lambda>i. i \<noteq> JNull) items))))
   \<and> (v \<noteq> JNull \<and> \<not> is_list v \<longrightarrow>
        md_cell db v
          = (if py_strip (py_replace 10 (u '' '') (py_str db v)) = [] then dash
             else py_replace 124 [92, 124] (py_strip (py_replace 10 (u '' '') (py_str db v)))))
   \<and> md_cell db (JList []) = dash
   \<and> (list_all py_isspace s \<longrightarrow> md_cell db (JStr s) = dash)
   \<and> pipes_after esc (md_cell db v) = 0
   \<and> (summary_row db issue = Inr row \<longrightarrow> pipes_after False row = 10)"
proof -
  have a: "md_cell db JNull = dash"
    by (simp add: md_cell_def)
  have b: "md_cell db (JList items)
       = md_cell db (JStr (py_join (u '', '') (map (py_str db) (filter (\<lambda>i. i \<noteq> JNull) items))))"
    by (simp add: md_cell_def)
  have c: "v \<noteq> JNull \<and> \<not> is_list v \<longrightarrow>
        md_cell db v
          = (if py_strip (py_replace 10 (u '' '') (py_str db v)) = [] then dash
             else py_replace 124 [92, 124] (py_strip (py_replace 10 (u '' '') (py_str db v))))"
    by (cases v) (simp_all add: md_cell_def is_list_def)
  have d: "md_cell db (JList []) = dash"
    by (simp add: md_cell_def py_str_def py_replace_def py_strip_def py_rstrip_def)
  have r: "list_all py_isspace (py_replace 10 (u '' '') s)" if "list_all py_isspace s"
    using that by (induction s) (auto simp: py_replace_def u_def py_isspace_def)
  have e: "list_all py_isspace s \<longrightarrow> md_cell db (JStr s) = dash"
    by (simp add: md_cell_def py_str_def strip_empty r)
  from a b c d e pipes_after_md_cell [of esc db v] pipes_after_summary_row [of db issue row]
  show ?thesis by blast
qed

theorem md_cell_amended_witness:
  "JStr (u ''a|b'') \<noteq> JNull \<and> \<not> is_list (JStr (u ''a|b''))
   \<and> md_cell ascii_db (JStr (u ''a|b'')) = u ''a'' @ [92] @ u ''|b''
   \<and> list_all py_isspace (u ''  '')
   \<and> md_cell ascii_db (JStr (u ''  '')) = dash
   \<and> summary_row ascii_db [(u ''title'', JStr (u ''a|b''))]
       = Inr (u ''| '' @ dash @ u '' | '' @ dash @ u '' | '' @ dash @ u '' | '' @ dash @ u '' | ''
              @ dash @ u '' | '' @ dash @ u '' | '' @ dash @ u '' | a'' @ [92] @ u ''|b | ''
              @ dash @ u '' |'')
   \<and> pipes_after False
        (u ''| '' @ dash @ u '' | '' @ dash @ u '' | '' @ dash @ u '' | '' @ dash @ u '' | ''
              @ dash @ u '' | '' @ dash @ u '' | '' @ dash @ u '' | a'' @ [92] @ u ''|b | ''
              @ dash @ u '' |'') = 10"
proof -
  have h1: "JStr (u ''a|b'') \<noteq> JNull \<and> \<not> is_list (JStr (u ''a|b''))"
    by (simp add: is_list_def)
  have h2: "list_all py_isspace (u ''  '')"
    by (simp add: u_def py_isspace_def)
  have h3: "summary_row ascii_db [(u ''title'', JStr (u ''a|b''))]
       = Inr (u ''| '' @ dash @ u '' | '' @ dash @ u '' | '' @ dash @ u '' | '' @ dash @ u '' | ''
              @ dash @ u '' | '' @ dash @ u '' | '' @ dash @ u '' | a'' @ [92] @ u ''|b | ''
              @ dash @ u '' |'')"
    by (simp add: eval_defs split del: if_split)
  show ?thesis
    using h1 h2 h3
      md_cell_amended [of ascii_db "[]" "JStr (u ''a|b'')" "u ''  ''" False
                          "[(u ''title'', JStr (u ''a|b''))]"
                          "u ''| '' @ dash @ u '' | '' @ dash @ u '' | '' @ dash @ u '' | '' @ dash @ u '' | ''
              @ dash @ u '' | '' @ dash @ u '' | '' @ dash @ u '' | a'' @ [92] @ u ''|b | ''
              @ dash @ u '' |''"]
    by (simp add: eval_defs split del: if_split)
qed

text \<open>
  The claim as stated fails on a sequence whose joined text holds a newline or ends in white
  space: the code replaces and trims there too.
\<close>

theorem md_cell_counterexample:
  "md_cell ascii_db (JList [JStr (u ''a'' @ [10] @ u ''b '')]) = u ''a b''
   \<and> claimed_md_cell ascii_db (JList [JStr (u ''a'' @ [10] @ u ''b '')]) = u ''a'' @ [10] @ u ''b ''
   \<and> md_cell ascii_db (JList [JStr (u '' '')]) = dash
   \<and> claimed_md_cell ascii_db (JList [JStr (u '' '')]) = u '' ''"
  by (simp add: claimed_md_cell_def eval_defs)

section \<open>The blocks of the Issue Details section\<close>

lemma bullets_append: "bullets db b lines items = lines @ map (\<lambda>item. b @ md_cell db item) items"
  unfolding bullets_def by (induction items arbitrary: lines) simp_all

lemma list_block_eq:
  "list_block db lines t items
     = lines @ [] # u t # (if items = [] then [u ''- '' @ dash]
                           else map (\<lambda>item. u ''- '' @ md_cell db item) items)"
  by (simp add: list_block_def Let_def bullets_append)

lemma optional_block_eq:
  "optional_block db lines t items
     = lines @ (if items = [] then []
                else [] # u t # map (\<lambda>item. u ''- '' @ md_cell db item) items)"
  by (simp add: optional_block_def bullets_append)

lemmas block_eqs = field_block_def list_block_eq optional_block_eq Let_def

lemma render_user_story_append: "render_user_story db lines i = lines @ render_user_story db [] i"
  by (simp add: render_user_story_def block_eqs)

lemma render_task_append: "render_task db lines i = lines @ render_task db [] i"
  by (simp add: render_task_def block_eqs)

lemma render_bug_append: "render_bug db lines i = lines @ render_bug db [] i"
  by (simp add: render_bug_def block_eqs)

lemma render_issue_common_append:
  "render_issue_common db lines i
     = (case render_issue_common db [] i of Inl e \<Rightarrow> Inl e | Inr ls \<Rightarrow> Inr (lines @ ls))"
  by (simp add: render_issue_common_def Let_def split: sum.splits)

lemma render_issue_common_error:
  "(render_issue_common db lines i = Inl e) = (type_display (dict_get i ''type'') = Inl e)"
  by (simp add: render_issue_common_def Let_def split: sum.splits)

lemma render_issue_details_error:
  "(render_issue_details db lines i = Inl e) = (type_display (dict_get i ''type'') = Inl e)"
  using render_issue_common_error [of db lines i e]
  by (auto simp: render_issue_details_def Let_def split: sum.splits)

lemma render_issue_details_append:
  "render_issue_details db lines i
     = (case render_issue_details db [] i of Inl e \<Rightarrow> Inl e | Inr ls \<Rightarrow> Inr (lines @ ls))"
proof (cases "render_issue_common db [] i")
  case (Inl e)
  then show ?thesis
    by (simp add: render_issue_details_def render_issue_common_append [of db lines])
next
  case (Inr ls)
  then show ?thesis
    using render_user_story_append [of db "lines @ ls" i] render_user_story_append [of db ls i]
      render_task_append [of db "lines @ ls" i] render_task_append [of db ls i]
      render_bug_append [of db "lines @ ls" i] render_bug_append [of db ls i]
    by (simp add: render_issue_details_def render_issue_common_append [of db lines] Let_def)
qed

lemma render_issue_details_block:
  "render_issue_details db lines i = Inr lines' \<Longrightarrow> lines' = lines @ detail_block db i"
  using render_issue_details_append [of db lines i]
  by (auto simp: detail_block_def split: sum.splits)

lemma fold_details_blocks:
  "fold_err (render_issue_details db) lines xs = Inr lines'
     \<Longrightarrow> lines' = lines @ concat (map (detail_block db) xs)"
proof (induction xs arbitrary: lines)
  case Nil
  then show ?case by simp
next
  case (Cons x xs)
  then obtain l1 where l1: "render_issue_details db lines x = Inr l1"
    and rest: "fold_err (render_issue_details db) l1 xs = Inr lines'"
    by (auto split: sum.splits)
  from Cons.IH [OF rest] render_issue_details_block [OF l1] show ?case by simp
qed


lemma get_list_setdefault_append:
  "get_list (setdefault_append idx k v) k'
     = (if k' = k then get_list idx k @ [v] else get_list idx k')"
  by (induction idx k v rule: setdefault_append.induct) (auto simp: get_list_def)

lemma get_list_children_index_aux:
  "get_list
     (foldl (\<lambda>idx issue.
               case dict_get issue ''parent_id'' of
                 JStr parent_id \<Rightarrow>
                   if parent_id \<noteq> [] then setdefault_append idx parent_id issue else idx
               | _ \<Rightarrow> idx) idx issues) p
     = get_list idx p
         @ (if p = [] then [] else filter (\<lambda>i. dict_get i ''parent_id'' = JStr p) issues)"
proof (induction issues arbitrary: idx)
  case Nil
  then show ?case by simp
next
  case (Cons x xs)
  show ?case
    by (cases "dict_get x ''parent_id''")
       (auto simp: Cons.IH get_list_setdefault_append)
qed

lemma get_list_children_index:
  "get_list (children_index issues) p
     = (if p = [] then [] else filter (\<lambda>i. dict_get i ''parent_id'' = JStr p) issues)"
  unfolding children_index_def get_list_children_index_aux
  by (simp add: get_list_def)

lemma get_list_group_index_aux:
  "get_list (foldl (\<lambda>groups issue. setdefault_append groups (epic_key issue) issue) g issues) k
     = get_list g k @ filter (\<lambda>i. epic_key i = k) issues"
  by (induction issues arbitrary: g) (auto simp: get_list_setdefault_append)

lemma get_list_group_index: "get_list (group_index issues) k = group_of issues k"
  unfolding group_index_def get_list_group_index_aux group_of_def
  by (simp add: get_list_def)

lemma render_story_blocks:
  assumes "render_story db (children_index issues) lines story = Inr lines'"
  shows "lines' = lines @ concat (map (detail_block db) (story # children_of db issues story))"
proof -
  from assms obtain l1 where l1: "render_issue_details db lines story = Inr l1"
    by (auto simp: render_story_def split: sum.splits)
  note b1 = render_issue_details_block [OF l1]
  show ?thesis
  proof (cases "dict_get story ''id''")
    case (JStr sid)
    with assms l1 have
      "fold_err (render_issue_details db) l1
         (sort_key (child_key db) (get_list (children_index issues) sid)) = Inr lines'"
      by (simp add: render_story_def)
    from fold_details_blocks [OF this] b1 JStr show ?thesis
      by (simp add: children_of_def get_list_children_index)
  qed (use assms l1 b1 in \<open>simp_all add: render_story_def children_of_def\<close>)
qed

lemma fold_stories_blocks:
  "fold_err (render_story db (children_index issues)) lines ss = Inr lines'
     \<Longrightarrow> lines' = lines @ concat (map (detail_block db)
                                 (concat (map (\<lambda>s. s # children_of db issues s) ss)))"
proof (induction ss arbitrary: lines)
  case Nil
  then show ?case by simp
next
  case (Cons x xs)
  then obtain l1 where l1: "render_story db (children_index issues) lines x = Inr l1"
    and rest: "fold_err (render_story db (children_index issues)) l1 xs = Inr lines'"
    by (auto split: sum.splits)
  from Cons.IH [OF rest] render_story_blocks [OF l1] show ?case by simp
qed

lemma render_group_blocks:
  assumes "render_group db epic_by_id (children_index issues) (group_index issues) lines epic_id
             = Inr lines'"
  shows "lines' = lines @ group_heading db epic_by_id epic_id
                    @ concat (map (detail_block db) (details_order db issues epic_id))"
proof -
  let ?l0 = "lines @ group_heading db epic_by_id epic_id"
  from assms obtain l1 where
    l1: "fold_err (render_story db (children_index issues)) ?l0 (stories_of db issues epic_id)
           = Inr l1"
    and l2: "fold_err (render_issue_details db) l1 (top_level_others issues epic_id) = Inr lines'"
    by (cases epic_id)
       (auto simp: render_group_def Let_def group_heading_def get_list_group_index
          stories_of_def top_level_others_def is_story_def [abs_def] split: sum.splits)
  from fold_stories_blocks [OF l1] fold_details_blocks [OF l2] show ?thesis
    by (simp add: details_order_def)
qed

lemma fold_groups_blocks:
  "fold_err (render_group db epic_by_id (children_index issues) (group_index issues)) lines ids
     = Inr lines'
   \<Longrightarrow> lines' = lines @ concat (map (\<lambda>epic_id. group_heading db epic_by_id epic_id
                     @ concat (map (detail_block db) (details_order db issues epic_id))) ids)"
proof (induction ids arbitrary: lines)
  case Nil
  then show ?case by simp
next
  case (Cons x xs)
  then obtain l1 where
    l1: "render_group db epic_by_id (children_index issues) (group_index issues) lines x = Inr l1"
    and rest: "fold_err (render_group db epic_by_id (children_index issues) (group_index issues))
                 l1 xs = Inr lines'"
    by (auto split: sum.splits)
  from Cons.IH [OF rest] render_group_blocks [OF l1] show ?case by simp
qed

lemma render_details_blocks:
  assumes "render_details db epic_by_id lines issues = Inr lines'"
  shows "lines' = lines @ [[], u ''## Issue Details'']
           @ concat (map (\<lambda>epic_id. group_heading db epic_by_id epic_id
                            @ concat (map (detail_block db) (details_order db issues epic_id)))
                       (epic_ids_sorted db (group_index issues)))"
  using fold_groups_blocks [of db epic_by_id issues "lines @ [[], u ''## Issue Details'']"
          "epic_ids_sorted db (group_index issues)" lines'] assms
  by (simp add: render_details_def Let_def)

section \<open>The layout of the document\<close>

lemma fold_rows:
  "fold_err (\<lambda>ls issue. case summary_row db issue of Inl e \<Rightarrow> Inl e | Inr row \<Rightarrow> Inr (ls @ [row]))
     lines issues = Inr lines'
   \<Longrightarrow> \<exists>rows. lines' = lines @ rows \<and> map (summary_row db) issues = map Inr rows"
proof (induction issues arbitrary: lines)
  case Nil
  then show ?case by simp
next
  case (Cons x xs)
  then obtain row where row: "summary_row db x = Inr row"
    and rest: "fold_err (\<lambda>ls issue. case summary_row db issue of Inl e \<Rightarrow> Inl e
                                      | Inr row \<Rightarrow> Inr (ls @ [row])) (lines @ [row]) xs = Inr lines'"
    by (auto split: sum.splits)
  from Cons.IH [OF rest] obtain rows where
    "lines' = (lines @ [row]) @ rows" "map (summary_row db) xs = map Inr rows"
    by blast
  with row have "lines' = lines @ (row # rows) \<and> map (summary_row db) (x # xs) = map Inr (row # rows)"
    by simp
  then show ?case by blast
qed

lemma render_summary_table_rows:
  assumes "render_summary_table db lines issues = Inr lines'"
  shows "\<exists>rows. lines' = lines @ summary_header @ rows
                \<and> map (summary_row db) issues = map Inr rows"
  using fold_rows [of db "lines @ summary_header" issues lines'] assms
  by (auto simp: render_summary_table_def)

lemma document_lines_parts:
  assumes "document_lines db bundle include_json = Inr lines'"
  shows "\<exists>head rows epic_by_id.
           lines' = head @ summary_header @ rows
                      @ details_section db epic_by_id (sorted_issues db bundle)
                      @ (if include_json then embedded_section bundle else [])
           \<and> map (summary_row db) (sorted_issues db bundle) = map Inr rows"
proof -
  from assms obtain d where d: "require_object bundle = Inr d"
    by (auto simp: document_lines_def split: sum.splits)
  then have b: "bundle = JDict d" by (rule require_object_Inr)
  define meta where "meta = (case dict_get d ''meta'' of JDict m \<Rightarrow> m | _ \<Rightarrow> [])"
  define project where "project = (case dict_get meta ''project'' of JStr p \<Rightarrow> p | _ \<Rightarrow> u ''TBD'')"
  define st where "st = render_epics db
                          (render_meta db [u ''# Issue Bundle '' @ dash @ u '' '' @ project, []] meta)
                          (list_field d ''epics'')"
  have si: "sorted_issues db bundle
              = sort_key (\<lambda>i. id_key db (dict_get i ''id'') ISSUE_PREFIX_ORDER)
                  (dicts_of (list_field d ''issues''))"
    by (simp add: sorted_issues_def b)
  from assms d obtain l1 l2 where
    l1: "render_summary_table db (fst st) (sorted_issues db bundle) = Inr l1"
    and l2: "render_details db (snd st) l1 (sorted_issues db bundle) = Inr l2"
    and l3: "lines' = (if include_json
                       then l2 @ [[], u ''## Issue Bundle (JSON)'', [],
                                  fence @ u ''json'', json_dumps 0 bundle, fence]
                       else l2)"
    unfolding si
    by (auto simp: document_lines_def Let_def st_def meta_def project_def split: sum.splits)
  from render_summary_table_rows [OF l1] obtain rows where
    rows: "l1 = fst st @ summary_header @ rows"
      "map (summary_row db) (sorted_issues db bundle) = map Inr rows"
    by blast
  from render_details_blocks [OF l2]
  have "l2 = l1 @ details_section db (snd st) (sorted_issues db bundle)"
    by (simp add: details_section_def)
  with rows l3 have
    "lines' = fst st @ summary_header @ rows
                @ details_section db (snd st) (sorted_issues db bundle)
                @ (if include_json then embedded_section bundle else [])"
    by (simp add: embedded_section_def)
  with rows(2) show ?thesis by blast
qed

lemma top_level_others_parent:
  "\<not> is_story i \<and> truthy (dict_get i ''parent_id'') \<longrightarrow> i \<notin> set (top_level_others issues epic_id)"
  by (simp add: top_level_others_def)

lemma children_of_iff:
  "i \<in> set (children_of db issues story)
     \<longleftrightarrow> i \<in> set issues
         \<and> (\<exists>sid. sid \<noteq> [] \<and> dict_get story ''id'' = JStr sid \<and> dict_get i ''parent_id'' = JStr sid)"
  by (cases "dict_get story ''id''") (auto simp: children_of_def)

lemmas bundle_defs = epic1_def us1_def task1_def task9_def us2_def bundle_of_def front_lines_def
  detail_block_def is_story_def children_of_def top_level_others_def group_of_def valid_bundle_def

text \<open>
  C5, as amended. Whenever the renderer returns, the document is a front part, the summary
  table with one row per issue, the Issue Details section and, when asked for, the embedded
  document. In the section each user story of a group is directly followed by the detail
  blocks of its children, which are the issues of the bundle whose \<^verbatim>\<open>parent_id\<close> is the
  story's non-empty \<^verbatim>\<open>id\<close>; a child's block is the block the issue would have anywhere
  else (it is not indented). An issue that is no user story and has a \<^verbatim>\<open>parent_id\<close> is never
  among the top-level entries of its group, so it is emitted only after a story whose id
  its parent is, and not at all when there is no such story.
\<close>

theorem details_layout:
  assumes "document_lines db bundle include_json = Inr lines'"
  shows "(\<exists>head rows epic_by_id.
            lines' = head @ summary_header @ rows
                       @ details_section db epic_by_id (sorted_issues db bundle)
                       @ (if include_json then embedded_section bundle else [])
            \<and> map (summary_row db) (sorted_issues db bundle) = map Inr rows)
         \<and> (\<not> is_story i \<and> truthy (dict_get i ''parent_id'')
              \<longrightarrow> i \<notin> set (top_level_others issues epic_id))
         \<and> (i \<in> set (children_of db issues story)
              \<longleftrightarrow> i \<in> set issues
                  \<and> (\<exists>sid. sid \<noteq> [] \<and> dict_get story ''id'' = JStr sid
                            \<and> dict_get i ''parent_id'' = JStr sid))"
  using document_lines_parts [OF assms] top_level_others_parent [of i issues epic_id]
    children_of_iff [of i db issues story]
  by blast

lemma scenario_lines:
  "document_lines ascii_db (bundle_of [us1, task1]) False
     = Inr (front_lines @ summary_header
              @ [u ''| US-1 | User Story | '' @ dash @ u '' | '' @ dash @ u '' | E-1 | '' @ dash
                   @ u '' | '' @ dash @ u '' | Pay | '' @ dash @ u '' |'',
                 u ''| TASK-1 | Task | '' @ dash @ u '' | '' @ dash @ u '' | E-1 | US-1 | '' @ dash
                   @ u '' | Add form | '' @ dash @ u '' |'']
              @ [[], u ''## Issue Details'', [], u ''### E-1: Checkout'']
              @ detail_block ascii_db us1 @ detail_block ascii_db task1)"
  by (simp add: bundle_defs eval_defs split del: if_split)


theorem details_layout_witness:
  "valid_bundle (bundle_of [us1, task1])
   \<and> document_lines ascii_db (bundle_of [us1, task1]) False
     = Inr (front_lines @ summary_header
              @ [u ''| US-1 | User Story | '' @ dash @ u '' | '' @ dash @ u '' | E-1 | '' @ dash
                   @ u '' | '' @ dash @ u '' | Pay | '' @ dash @ u '' |'',
                 u ''| TASK-1 | Task | '' @ dash @ u '' | '' @ dash @ u '' | E-1 | US-1 | '' @ dash
                   @ u '' | Add form | '' @ dash @ u '' |'']
              @ [[], u ''## Issue Details'', [], u ''### E-1: Checkout'']
              @ detail_block ascii_db us1 @ detail_block ascii_db task1)
   \<and> \<not> is_story task1 \<and> truthy (dict_get task1 ''parent_id'')
   \<and> task1 \<notin> set (top_level_others [us1, task1] (Some (u ''E-1'')))
   \<and> children_of ascii_db [us1, task1] us1 = [task1]
   \<and> details_order ascii_db [us1, task1] (Some (u ''E-1'')) = [us1, task1]"
proof -
  have h: "\<not> is_story task1 \<and> truthy (dict_get task1 ''parent_id'')"
    by (simp add: bundle_defs eval_defs)
  have c: "children_of ascii_db [us1, task1] us1 = [task1]"
    by (simp add: bundle_defs eval_defs)
  have d: "details_order ascii_db [us1, task1] (Some (u ''E-1'')) = [us1, task1]"
    unfolding details_order_def c
    by (simp add: bundle_defs stories_of_def eval_defs)
  have v: "valid_bundle (bundle_of [us1, task1])"
    by (simp add: bundle_defs eval_defs)
  show ?thesis
    using v h c d scenario_lines
      details_layout [OF scenario_lines, of task1 "[us1, task1]" "Some (u ''E-1'')" us1]
    by simp
qed

text \<open>
  The claim as stated fails: the task \<^verbatim>\<open>TASK-1\<close> with the parent \<^verbatim>\<open>US-9\<close>, which no issue
  has as its id, is in the summary table and nowhere in the Issue Details section. And the
  block of a child starts at the left margin.
\<close>

theorem details_counterexample:
  "valid_bundle (bundle_of [task9])
   \<and> \<not> is_story task9 \<and> dict_get task9 ''parent_id'' = JStr (u ''US-9'')
   \<and> document_lines ascii_db (bundle_of [task9]) False
       = Inr (front_lines @ summary_header
                @ [u ''| TASK-1 | Task | '' @ dash @ u '' | '' @ dash @ u '' | E-1 | US-9 | '' @ dash
                     @ u '' | Add form | '' @ dash @ u '' |'']
                @ [[], u ''## Issue Details'', [], u ''### E-1: Checkout''])
   \<and> take 1 (detail_block ascii_db task1) = [u ''#### TASK-1: Add form'']"
  by (simp add: bundle_defs eval_defs split del: if_split)

text \<open>
  C9. In the bundle with the epic \<^verbatim>\<open>E-1\<close> and the user stories \<^verbatim>\<open>US-1\<close> and \<^verbatim>\<open>US-2\<close>,
  where the parent of \<^verbatim>\<open>US-2\<close> is \<^verbatim>\<open>US-1\<close>, the detail block of \<^verbatim>\<open>US-2\<close> is emitted
  twice in the Issue Details section: as the child of \<^verbatim>\<open>US-1\<close> and as a user story of its
  own group, with and without the embedded document.
\<close>

theorem story_block_twice:
  "valid_bundle (bundle_of [us1, us2])
   \<and> is_story us1 \<and> is_story us2 \<and> dict_get us2 ''parent_id'' = dict_get us1 ''id''
   \<and> detail_block ascii_db us2 \<noteq> []
   \<and> document_lines ascii_db (bundle_of [us1, us2]) False
       = Inr (front_lines @ summary_header
                @ [u ''| US-1 | User Story | '' @ dash @ u '' | '' @ dash @ u '' | E-1 | '' @ dash
                     @ u '' | '' @ dash @ u '' | Pay | '' @ dash @ u '' |'',
                   u ''| US-2 | User Story | '' @ dash @ u '' | '' @ dash @ u '' | E-1 | US-1 | ''
                     @ dash @ u '' | Pay by card | '' @ dash @ u '' |'']
                @ [[], u ''## Issue Details'', [], u ''### E-1: Checkout'']
                @ detail_block ascii_db us1 @ detail_block ascii_db us2
                @ detail_block ascii_db us2)
   \<and> document_lines ascii_db (bundle_of [us1, us2]) True
       = Inr (front_lines @ summary_header
                @ [u ''| US-1 | User Story | '' @ dash @ u '' | '' @ dash @ u '' | E-1 | '' @ dash
                     @ u '' | '' @ dash @ u '' | Pay | '' @ dash @ u '' |'',
                   u ''| US-2 | User Story | '' @ dash @ u '' | '' @ dash @ u '' | E-1 | US-1 | ''
                     @ dash @ u '' | Pay by card | '' @ dash @ u '' |'']
                @ [[], u ''## Issue Details'', [], u ''### E-1: Checkout'']
                @ detail_block ascii_db us1 @ detail_block ascii_db us2
                @ detail_block ascii_db us2
                @ embedded_section (bundle_of [us1, us2]))"
  by (simp add: bundle_defs embedded_section_def eval_defs split del: if_split)

section \<open>When the renderer returns\<close>

text \<open>
  The renderer returns on a valid bundle exactly when no mapping-shaped issue has a list or
  a dictionary as its \<^verbatim>\<open>type\<close>; otherwise it ends with the \<^verbatim>\<open>TypeError\<close>. When it returns,
  the text ends with one newline that no white space stands in front of.
\<close>

lemma type_display_hashable: "(\<exists>t. type_display v = Inr t) = hashable v"
  by (cases v) (simp_all add: type_display_def hashable_def is_list_def is_dict_def)

lemma type_display_error: "(type_display v = Inl e) = (\<not> hashable v \<and> e = TypeError)"
  by (cases v) (auto simp: type_display_def hashable_def is_list_def is_dict_def)

lemma summary_row_error:
  "(summary_row db i = Inl e) = (\<not> hashable (dict_get i ''type'') \<and> e = TypeError)"
  using type_display_error [of "dict_get i ''type''" e]
  by (auto simp: summary_row_def Let_def split: sum.splits)

lemma render_issue_details_hashable:
  "(render_issue_details db lines i = Inl e) = (\<not> hashable (dict_get i ''type'') \<and> e = TypeError)"
  by (simp add: render_issue_details_error type_display_error)

lemma fold_err_returns:
  assumes "\<And>s x. x \<in> set xs \<Longrightarrow> \<exists>s'. f s x = Inr s'"
  shows "\<exists>s'. fold_err f s xs = Inr s'"
  using assms
proof (induction xs arbitrary: s)
  case Nil
  then show ?case by simp
next
  case (Cons x xs)
  from Cons.prems [of x s] obtain s1 where s1: "f s x = Inr s1" by auto
  from Cons.IH [of s1] Cons.prems obtain s' where "fold_err f s1 xs = Inr s'" by auto
  with s1 show ?case by simp
qed

lemma fold_err_error:
  assumes "fold_err f s xs = Inl e"
  shows "\<exists>s' x. x \<in> set xs \<and> f s' x = Inl e"
  using assms
proof (induction xs arbitrary: s)
  case Nil
  then show ?case by simp
next
  case (Cons x xs)
  show ?case
  proof (cases "f s x")
    case (Inl e')
    with Cons.prems show ?thesis by auto
  next
    case (Inr s1)
    with Cons.prems have "fold_err f s1 xs = Inl e" by simp
    from Cons.IH [OF this] show ?thesis by auto
  qed
qed

lemma details_returns:
  assumes "\<forall>i\<in>set xs. hashable (dict_get i ''type'')"
  shows "\<exists>lines'. fold_err (render_issue_details db) lines xs = Inr lines'"
proof (rule fold_err_returns)
  fix s x
  assume "x \<in> set xs"
  with assms have "hashable (dict_get x ''type'')" by simp
  then show "\<exists>s'. render_issue_details db s x = Inr s'"
    using render_issue_details_hashable [of db s x]
    by (cases "render_issue_details db s x") auto
qed

lemma children_of_subset: "set (children_of db issues story) \<subseteq> set issues"
  by (cases "dict_get story ''id''") (auto simp: children_of_def)

lemma details_order_subset: "set (details_order db issues epic_id) \<subseteq> set issues"
  using children_of_subset [of db issues]
  by (auto simp: details_order_def stories_of_def top_level_others_def group_of_def)

lemma render_story_returns:
  assumes "\<forall>i\<in>set issues. hashable (dict_get i ''type'')" and "story \<in> set issues"
  shows "\<exists>lines'. render_story db (children_index issues) lines story = Inr lines'"
proof -
  from assms render_issue_details_hashable [of db lines story]
  obtain l1 where l1: "render_issue_details db lines story = Inr l1"
    by (cases "render_issue_details db lines story") auto
  show ?thesis
  proof (cases "dict_get story ''id''")
    case (JStr sid)
    have "set (sort_key (child_key db) (get_list (children_index issues) sid)) \<subseteq> set issues"
      by (auto simp: get_list_children_index)
    with assms(1) have "\<forall>i\<in>set (sort_key (child_key db) (get_list (children_index issues) sid)).
                          hashable (dict_get i ''type'')"
      by blast
    from details_returns [OF this, of db l1] l1 JStr show ?thesis
      by (simp add: render_story_def)
  qed (use l1 in \<open>simp_all add: render_story_def\<close>)
qed

lemma render_group_returns:
  assumes "\<forall>i\<in>set issues. hashable (dict_get i ''type'')"
  shows "\<exists>lines'. render_group db epic_by_id (children_index issues) (group_index issues)
                     lines epic_id = Inr lines'"
proof -
  let ?l0 = "lines @ group_heading db epic_by_id epic_id"
  have "\<exists>l1. fold_err (render_story db (children_index issues)) ?l0
                (stories_of db issues epic_id) = Inr l1"
  proof (rule fold_err_returns)
    fix s x
    assume "x \<in> set (stories_of db issues epic_id)"
    then have "x \<in> set issues"
      by (auto simp: stories_of_def group_of_def)
    from render_story_returns [OF assms this]
    show "\<exists>s'. render_story db (children_index issues) s x = Inr s'" .
  qed
  then obtain l1 where
    l1: "fold_err (render_story db (children_index issues)) ?l0 (stories_of db issues epic_id) = Inr l1"
    by blast
  have "\<forall>i\<in>set (top_level_others issues epic_id). hashable (dict_get i ''type'')"
    using assms by (auto simp: top_level_others_def group_of_def)
  from details_returns [OF this, of db l1] obtain l2 where
    l2: "fold_err (render_issue_details db) l1 (top_level_others issues epic_id) = Inr l2"
    by blast
  from l1 l2 show ?thesis
    by (cases epic_id)
       (auto simp: render_group_def Let_def group_heading_def get_list_group_index
          stories_of_def top_level_others_def is_story_def [abs_def])
qed

lemma render_details_returns:
  assumes "\<forall>i\<in>set issues. hashable (dict_get i ''type'')"
  shows "\<exists>lines'. render_details db epic_by_id lines issues = Inr lines'"
  unfolding render_details_def Let_def
  by (rule fold_err_returns) (use render_group_returns [OF assms] in blast)

lemma render_summary_table_returns:
  assumes "\<forall>i\<in>set issues. hashable (dict_get i ''type'')"
  shows "\<exists>lines'. render_summary_table db lines issues = Inr lines'"
  unfolding render_summary_table_def
proof (rule fold_err_returns)
  fix s x
  assume "x \<in> set issues"
  with assms have "hashable (dict_get x ''type'')" by simp
  with summary_row_error [of db x] obtain row where "summary_row db x = Inr row"
    by (cases "summary_row db x") auto
  then show "\<exists>s'. (case summary_row db x of Inl e \<Rightarrow> Inl e | Inr row \<Rightarrow> Inr (s @ [row])) = Inr s'"
    by simp
qed

lemma render_summary_table_error:
  assumes "render_summary_table db lines issues = Inl e"
  shows "e = TypeError \<and> (\<exists>i\<in>set issues. \<not> hashable (dict_get i ''type''))"
proof -
  from fold_err_error [OF assms [unfolded render_summary_table_def]]
  obtain s x where x: "x \<in> set issues"
    and "(case summary_row db x of Inl e \<Rightarrow> Inl e | Inr row \<Rightarrow> Inr (s @ [row])) = Inl e"
    by blast
  then have "summary_row db x = Inl e" by (auto split: sum.splits)
  with summary_row_error [of db x e] x show ?thesis by blast
qed

lemma set_sorted_issues:
  "set (sorted_issues db (JDict d)) = set (dicts_of (list_field d ''issues''))"
  by (simp add: sorted_issues_def)


lemma summary_rows_hashable:
  assumes "map (summary_row db) issues = map Inr rows"
  shows "\<forall>i\<in>set issues. hashable (dict_get i ''type'')"
proof
  fix i
  assume "i \<in> set issues"
  then have "summary_row db i \<in> set (map Inr rows)"
    unfolding assms [symmetric] by simp
  then obtain row where "summary_row db i = Inr row" by auto
  with summary_row_error [of db i TypeError] show "hashable (dict_get i ''type'')"
    by auto
qed

lemma document_lines_returns:
  assumes "valid_bundle bundle"
  shows "(\<exists>lines. document_lines db bundle include_json = Inr lines)
           = (\<forall>i\<in>set (sorted_issues db bundle). hashable (dict_get i ''type''))"
proof
  assume "\<exists>lines. document_lines db bundle include_json = Inr lines"
  then obtain lines where "document_lines db bundle include_json = Inr lines" by blast
  from document_lines_parts [OF this] summary_rows_hashable
  show "\<forall>i\<in>set (sorted_issues db bundle). hashable (dict_get i ''type'')"
    by blast
next
  assume h: "\<forall>i\<in>set (sorted_issues db bundle). hashable (dict_get i ''type'')"
  from assms obtain d where d: "require_object bundle = Inr d"
    by (auto simp: require_object_valid)
  then have b: "bundle = JDict d" by (rule require_object_Inr)
  have si: "sort_key (\<lambda>i. id_key db (dict_get i ''id'') ISSUE_PREFIX_ORDER)
              (dicts_of (list_field d ''issues'')) = sorted_issues db bundle"
    by (simp add: sorted_issues_def b)
  define meta where "meta = (case dict_get d ''meta'' of JDict m \<Rightarrow> m | _ \<Rightarrow> [])"
  define project where "project = (case dict_get meta ''project'' of JStr p \<Rightarrow> p | _ \<Rightarrow> u ''TBD'')"
  define st where "st = render_epics db
                          (render_meta db [u ''# Issue Bundle '' @ dash @ u '' '' @ project, []] meta)
                          (list_field d ''epics'')"
  from render_summary_table_returns [OF h, of db "fst st"] obtain l1 where
    l1: "render_summary_table db (fst st) (sorted_issues db bundle) = Inr l1"
    by blast
  from render_details_returns [OF h, of db "snd st" l1] obtain l2 where
    l2: "render_details db (snd st) l1 (sorted_issues db bundle) = Inr l2"
    by blast
  have "document_lines db bundle include_json
          = Inr (if include_json
                 then l2 @ [[], u ''## Issue Bundle (JSON)'', [],
                            fence @ u ''json'', json_dumps 0 bundle, fence]
                 else l2)"
    using d l1 l2
    by (simp add: document_lines_def Let_def st_def meta_def project_def si)
  then show "\<exists>lines. document_lines db bundle include_json = Inr lines"
    by blast
qed

lemma rstrip_last: "py_rstrip s \<noteq> [] \<Longrightarrow> \<not> py_isspace (last (py_rstrip s))"
  using hd_dropWhile [of py_isspace "rev s"]
  by (simp add: py_rstrip_def last_rev)

lemma render_returns:
  assumes "valid_bundle bundle"
    and "\<forall>i\<in>set (sorted_issues db bundle). hashable (dict_get i ''type'')"
  shows "\<exists>text. render_issue_bundle_markdown db bundle include_json = Inr text
                \<and> text \<noteq> [] \<and> last text = 10
                \<and> (butlast text = [] \<or> \<not> py_isspace (last (butlast text)))"
proof -
  from document_lines_returns [OF assms(1), of db include_json] assms(2)
  obtain lines where "document_lines db bundle include_json = Inr lines" by blast
  then have "render_issue_bundle_markdown db bundle include_json
               = Inr (py_rstrip (py_join [10] lines) @ [10])"
    by (simp add: render_issue_bundle_markdown_def)
  then show ?thesis
    using rstrip_last [of "py_join [10] lines"] by auto
qed

lemma render_raises:
  assumes "valid_bundle bundle"
    and "\<exists>i\<in>set (sorted_issues db bundle). \<not> hashable (dict_get i ''type'')"
  shows "render_issue_bundle_markdown db bundle include_json = Inl TypeError"
proof -
  from assms(1) obtain d where d: "require_object bundle = Inr d"
    by (auto simp: require_object_valid)
  then have b: "bundle = JDict d" by (rule require_object_Inr)
  have si: "sort_key (\<lambda>i. id_key db (dict_get i ''id'') ISSUE_PREFIX_ORDER)
              (dicts_of (list_field d ''issues'')) = sorted_issues db bundle"
    by (simp add: sorted_issues_def b)
  obtain e where e: "document_lines db bundle include_json = Inl e"
    using document_lines_returns [OF assms(1), of db include_json] assms(2)
    by (cases "document_lines db bundle include_json") auto
  have "e = TypeError"
  proof -
    have "\<And>lines. \<exists>l. render_summary_table db lines (sorted_issues db bundle) = Inl l"
    proof -
      fix lines
      show "\<exists>l. render_summary_table db lines (sorted_issues db bundle) = Inl l"
      proof (cases "render_summary_table db lines (sorted_issues db bundle)")
        case (Inr l1)
        from render_summary_table_rows [OF Inr] summary_rows_hashable assms(2)
        show ?thesis by blast
      qed simp
    qed
    then obtain l where
      "\<And>lines. render_summary_table db lines (sorted_issues db bundle) = Inl (l lines)"
      by metis
    with e d si render_summary_table_error [of db _ "sorted_issues db bundle"]
    show ?thesis
      by (auto simp: document_lines_def Let_def split: sum.splits)
  qed
  with e show ?thesis
    by (simp add: render_issue_bundle_markdown_def)
qed

lemma sorted_issues_sorted:
  "sorted (map (\<lambda>i. id_key db (dict_get i ''id'') ISSUE_PREFIX_ORDER) (sorted_issues db bundle))
   \<and> length (sorted_issues db (JDict d)) = length (dicts_of (list_field d ''issues''))"
  by (cases "bundle") (simp_all add: sorted_issues_def)

lemma dangling_omitted:
  assumes "\<not> is_story i" and "dict_get i ''parent_id'' = JStr p" and "p \<noteq> []"
    and "\<forall>s\<in>set issues. is_story s \<longrightarrow> dict_get s ''id'' \<noteq> JStr p"
  shows "i \<notin> set (details_order db issues epic_id)"
proof
  assume "i \<in> set (details_order db issues epic_id)"
  then consider
      (story) "i \<in> set (stories_of db issues epic_id)"
    | (child) s where "s \<in> set (stories_of db issues epic_id)" "i \<in> set (children_of db issues s)"
    | (other) "i \<in> set (top_level_others issues epic_id)"
    by (auto simp: details_order_def)
  then show False
  proof cases
    case story
    with assms(1) show False by (simp add: stories_of_def)
  next
    case child
    then have "s \<in> set issues" "is_story s"
      by (auto simp: stories_of_def group_of_def)
    moreover from child(2) assms(2) have "dict_get s ''id'' = JStr p"
      by (auto simp: children_of_iff)
    ultimately show False using assms(4) by blast
  next
    case other
    with assms(2,3) show False
      by (simp add: top_level_others_def truthy_def)
  qed
qed

text \<open>
  When the renderer returns with the embedding asked for, the text ends with the fence, the
  serialized input document and the closing fence, each on lines of their own.
\<close>

lemma py_join_append:
  "xs \<noteq> [] \<Longrightarrow> ys \<noteq> [] \<Longrightarrow> py_join sep (xs @ ys) = py_join sep xs @ sep @ py_join sep ys"
proof (induction sep xs rule: py_join.induct)
  case (2 sep x)
  then show ?case by (cases ys) simp_all
qed simp_all

lemma rstrip_keep: "s \<noteq> [] \<Longrightarrow> \<not> py_isspace (last s) \<Longrightarrow> py_rstrip s = s"
  by (cases s rule: rev_cases) (simp_all add: py_rstrip_def)

lemma embedded_text:
  assumes "render_issue_bundle_markdown db bundle True = Inr text"
  shows "\<exists>pre. text = pre @ [10] @ fence @ u ''json'' @ [10] @ json_dumps 0 bundle @ [10]
                          @ fence @ [10]"
proof -
  from assms obtain lines where lines: "document_lines db bundle True = Inr lines"
    and tx: "text = py_rstrip (py_join [10] lines) @ [10]"
    by (auto simp: render_issue_bundle_markdown_def split: sum.splits)
  from document_lines_parts [OF lines] obtain front where
    l: "lines = (front @ [[], u ''## Issue Bundle (JSON)'', []])
               @ [fence @ u ''json'', json_dumps 0 bundle, fence]"
    by (auto simp: embedded_section_def)
  have "py_join [10] ((front @ [[], u ''## Issue Bundle (JSON)'', []])
                        @ [fence @ u ''json'', json_dumps 0 bundle, fence])
          = py_join [10] (front @ [[], u ''## Issue Bundle (JSON)'', []])
              @ [10] @ py_join [10] [fence @ u ''json'', json_dumps 0 bundle, fence]"
    by (rule py_join_append) simp_all
  then have "py_join [10] lines
               = py_join [10] (front @ [[], u ''## Issue Bundle (JSON)'', []])
                   @ [10] @ py_join [10] [fence @ u ''json'', json_dumps 0 bundle, fence]"
    unfolding l .
  then have j: "py_join [10] lines
               = py_join [10] (front @ [[], u ''## Issue Bundle (JSON)'', []])
                   @ [10] @ fence @ u ''json'' @ [10] @ json_dumps 0 bundle @ [10] @ fence"
    by simp
  have "py_rstrip (py_join [10] lines) = py_join [10] lines"
    by (rule rstrip_keep) (simp_all add: j fence_def py_isspace_def)
  with tx j show ?thesis
    by simp
qed

section \<open>An issue whose type has no hash\<close>

text \<open>
  C8. The bundle passes the shape check, its only issue has the list \<^verbatim>\<open>[]\<close> as its
  \<^verbatim>\<open>type\<close>, and the renderer ends with a \<^verbatim>\<open>TypeError\<close> for either value of the embedding
  flag: the lookup \<^verbatim>\<open>TYPE_DISPLAY.get\<close> of line 140 hashes the list.
\<close>

theorem render_type_error:
  "valid_bundle (bundle_of [[(u ''id'', JStr (u ''US-1'')), (u ''type'', JList [])]])
   \<and> render_issue_bundle_markdown ascii_db
        (bundle_of [[(u ''id'', JStr (u ''US-1'')), (u ''type'', JList [])]]) False
       = Inl TypeError
   \<and> render_issue_bundle_markdown ascii_db
        (bundle_of [[(u ''id'', JStr (u ''US-1'')), (u ''type'', JList [])]]) True
       = Inl TypeError"
  by (simp add: bundle_defs eval_defs split del: if_split)

text \<open>
  C2. The bundle passes the shape check and has two mapping-shaped issues; the \<^verbatim>\<open>type\<close> of
  the second is a mapping. Its row cannot be made, and no summary table is produced.
\<close>

theorem summary_type_error:
  "valid_bundle
     (bundle_of [us1, [(u ''id'', JStr (u ''TASK-2'')),
                       (u ''type'', JDict [(u ''name'', JStr (u ''task''))])]])
   \<and> summary_row ascii_db [(u ''id'', JStr (u ''TASK-2'')),
                            (u ''type'', JDict [(u ''name'', JStr (u ''task''))])]
       = Inl TypeError
   \<and> document_lines ascii_db
        (bundle_of [us1, [(u ''id'', JStr (u ''TASK-2'')),
                          (u ''type'', JDict [(u ''name'', JStr (u ''task''))])]]) False
       = Inl TypeError"
  by (simp add: bundle_defs eval_defs split del: if_split)

text \<open>
  C7. The bundle passes the shape check, embedding is asked for, and the renderer ends with
  a \<^verbatim>\<open>TypeError\<close> before the embedded document is reached.
\<close>

theorem embed_type_error:
  "valid_bundle (bundle_of [[(u ''id'', JStr (u ''BUG-1'')), (u ''type'', JList [JStr (u ''bug'')])]])
   \<and> render_issue_bundle_markdown ascii_db
        (bundle_of [[(u ''id'', JStr (u ''BUG-1'')), (u ''type'', JList [JStr (u ''bug'')])]]) True
       = Inl TypeError"
  by (simp add: bundle_defs eval_defs split del: if_split)

text \<open>
  C10. The issue is no user story and its parent \<^verbatim>\<open>US-9\<close> is the id of no issue; its
  \<^verbatim>\<open>type\<close> is a list, and the renderer ends with a \<^verbatim>\<open>TypeError\<close>: the issue does not appear
  as a row of the summary table.
\<close>

theorem dangling_type_error:
  "valid_bundle
     (bundle_of [[(u ''id'', JStr (u ''TASK-1'')), (u ''type'', JList [JStr (u ''task'')]),
                  (u ''parent_id'', JStr (u ''US-9''))]])
   \<and> \<not> is_story [(u ''id'', JStr (u ''TASK-1'')), (u ''type'', JList [JStr (u ''task'')]),
                    (u ''parent_id'', JStr (u ''US-9''))]
   \<and> render_issue_bundle_markdown ascii_db
        (bundle_of [[(u ''id'', JStr (u ''TASK-1'')), (u ''type'', JList [JStr (u ''task'')]),
                     (u ''parent_id'', JStr (u ''US-9''))]]) False
       = Inl TypeError"
  by (simp add: bundle_defs eval_defs split del: if_split)

end
